theory Spec2Isabelle
  imports Main "HOL-Library.Word" "HOL-Library.Sublist"
begin

section \<open>The host side of the Aleo wrapper: data model\<close>

text \<open>
  The Go package drives a WebAssembly guest through the wazero API. The guest's code is
  opaque; the host only sees what its exported functions return and what its linear
  memory holds. The embedding keeps the guest as a parameter (an arbitrary function from
  the exported function's name, its arguments and the module's state to a reply), so every
  theorem below holds for every guest.

  Go's \<open>uint64\<close> and \<open>uint32\<close> are words; a \<open>[]byte\<close> and a Go \<open>string\<close> are both
  byte lists (the nil slice and the empty string are \<open>[]\<close>); \<open>int\<close> values stay far from
  the machine bounds on every path that computes with them and are \<open>int\<close>.
\<close>

type_synonym u64 = "64 word"
type_synonym u32 = "32 word"
type_synonym byte = "8 word"
type_synonym bytes = "byte list"

text \<open>The constants of \<open>wrapper.go\<close>.\<close>

definition PRIVATE_KEY_SIZE :: nat where "PRIVATE_KEY_SIZE = 59"
definition ADDRESS_SIZE :: nat where "ADDRESS_SIZE = 63"
definition SIGNATURE_SIZE :: nat where "SIGNATURE_SIZE = 216"
definition MESSAGE_FORMAT_BLOCK_SIZE :: int where "MESSAGE_FORMAT_BLOCK_SIZE = 16 * 32"
definition MAX_FORMAT_MESSAGE_CHUNKS :: int where "MAX_FORMAT_MESSAGE_CHUNKS = 32"

text \<open>
  Go error values. \<open>ErrNoModule\<close> and \<open>ErrNoRuntime\<close> are the two package variables;
  \<open>New\<close> is \<open>errors.New\<close>; \<open>Errorf\<close> is \<open>fmt.Errorf\<close> with its format string and
  arguments kept unrendered; \<open>RuntimeError\<close> is a value of Go's \<open>runtime.Error\<close> (an index
  out of range); \<open>External\<close> is any error made outside the package (by wazero or the guest).
\<close>

datatype error =
    ErrNoModule
  | ErrNoRuntime
  | New string
  | Errorf string "fmt_arg list"
  | RuntimeError string
  | External string
and fmt_arg =
    ArgInt int
  | ArgErr error
  | ArgNames "string list"

text \<open>
  The value a \<open>panic\<close> carries, by the three cases of the type switch every
  \<open>recover\<close> closure of the package makes: a string, an error, anything else.
\<close>

datatype payload = PString string | PError error | POther

text \<open>The nine functions a session resolves from the guest module (\<open>NewSession\<close>).\<close>

datatype fn =
    NewPrivateKeyFn | GetAddressFn | SignFn | AllocFn | DeallocFn
  | HashMessageFn | HashMessageBytesFn | FormatMessageFn | RecoverMessageFn

fun export_name :: "fn \<Rightarrow> string" where
  "export_name NewPrivateKeyFn = ''new_private_key''"
| "export_name GetAddressFn = ''get_address''"
| "export_name SignFn = ''sign''"
| "export_name AllocFn = ''alloc''"
| "export_name DeallocFn = ''dealloc''"
| "export_name HashMessageFn = ''hash_message''"
| "export_name HashMessageBytesFn = ''hash_message_bytes''"
| "export_name FormatMessageFn = ''format_message''"
| "export_name RecoverMessageFn = ''formatted_message_to_bytes''"

text \<open>
  A module instance: its linear memory, whether it has been closed, and the guest's private
  state (allocator bookkeeping, randomness), which the host never inspects.
\<close>

record 'x module =
  memory :: bytes
  is_closed :: bool
  internal :: 'x

text \<open>
  What \<open>api.Function.Call\<close> can do: return result words, return an error, or panic.
  Each time the module may have changed.
\<close>

datatype 'x reply =
    Returned "u64 list" "'x module"
  | Failed error "'x module"
  | Panicked payload "'x module"

type_synonym 'x guest = "fn \<Rightarrow> u64 list \<Rightarrow> 'x module \<Rightarrow> 'x reply"

text \<open>
  What the host does at the boundary, in the order it does it: guest function calls with
  their arguments and how they ended, reads and writes of guest memory with their
  \<open>ok\<close> flag, and lines written with Go's \<open>log\<close> package. A panic raised by the Go
  run time in the host's own code is recorded as well.
\<close>

datatype ending = Ret "u64 list" | Err error | Pan payload

datatype event =
    Invoke fn "u64 list" ending
  | Read u32 u32 bool
  | Write u32 bytes bool
  | Logged string "fmt_arg list"
  | Raised payload

subsection \<open>Go control flow: return, panic, defer, recover\<close>

text \<open>
  A piece of Go code run on a module either completes with a value or panics; it leaves a
  module and the events it caused.
\<close>

datatype 'a exit = Return 'a | Panic payload

type_synonym ('a, 'x) go = "'x module \<Rightarrow> 'a exit \<times> 'x module \<times> event list"

definition ret :: "'a \<Rightarrow> ('a, 'x) go" where
  "ret a m = (Return a, m, [])"

definition panic :: "payload \<Rightarrow> ('a, 'x) go" where
  "panic p m = (Panic p, m, [Raised p])"

definition seq :: "('a, 'x) go \<Rightarrow> ('a \<Rightarrow> ('b, 'x) go) \<Rightarrow> ('b, 'x) go" where
  "seq f k m =
     (case f m of
        (Return a, m1, t1) \<Rightarrow> (case k a m1 of (e, m2, t2) \<Rightarrow> (e, m2, t1 @ t2))
      | (Panic p, m1, t1) \<Rightarrow> (Panic p, m1, t1))"

text \<open>
  \<open>deferring d body\<close> is \<open>defer d(); body\<close>: the deferred call runs when the body has
  returned or panicked. If the deferred call panics, that panic is the one in flight
  afterwards; otherwise the body's exit stands.
\<close>

definition deferring :: "(unit, 'x) go \<Rightarrow> ('a, 'x) go \<Rightarrow> ('a, 'x) go" where
  "deferring d body m =
     (case body m of (e, m1, t1) \<Rightarrow>
        (case d m1 of
           (Return u, m2, t2) \<Rightarrow> (e, m2, t1 @ t2)
         | (Panic p, m2, t2) \<Rightarrow> (Panic p, m2, t1 @ t2)))"

text \<open>The type switch of the \<open>recover\<close> closures.\<close>

fun recovered :: "payload \<Rightarrow> error" where
  "recovered (PString x) = New x"
| "recovered (PError x) = x"
| "recovered POther = New ''unknown panic''"

text \<open>
  The first deferred closure of every public operation: it runs last, and on a panic it
  sets \<open>err\<close>, resets the other named results to their zero value, and the operation
  returns normally.
\<close>

definition recovering :: "'r \<Rightarrow> ('r \<times> error option, 'x) go \<Rightarrow> ('r \<times> error option, 'x) go" where
  "recovering zero body m =
     (case body m of
        (Return r, m1, t) \<Rightarrow> (Return r, m1, t)
      | (Panic p, m1, t) \<Rightarrow> (Return (zero, Some (recovered p)), m1, t))"

definition logging :: "string \<Rightarrow> fmt_arg list \<Rightarrow> (unit, 'x) go" where
  "logging s as m = (Return (), m, [Logged s as])"

subsection \<open>The wazero calls the package makes\<close>

text \<open>\<open>f.Call(ctx, args...)\<close>: the result slice and the error, or a panic.\<close>

definition Call :: "'x guest \<Rightarrow> fn \<Rightarrow> u64 list \<Rightarrow> (u64 list \<times> error option, 'x) go" where
  "Call G f args m =
     (case G f args m of
        Returned rs m1 \<Rightarrow> (Return (rs, None), m1, [Invoke f args (Ret rs)])
      | Failed e m1 \<Rightarrow> (Return ([], Some e), m1, [Invoke f args (Err e)])
      | Panicked p m1 \<Rightarrow> (Panic p, m1, [Invoke f args (Pan p)]))"

text \<open>
  \<open>Memory().Read(offset, byteCount)\<close> gives the bytes of the range and \<open>true\<close>, or
  \<open>false\<close> when the range is not inside the memory. \<open>Memory().Write(offset, v)\<close> copies
  \<open>v\<close> into the memory and gives \<open>true\<close>, or changes nothing and gives \<open>false\<close> when the
  range is not inside the memory.
\<close>

definition in_range :: "u32 \<Rightarrow> nat \<Rightarrow> 'x module \<Rightarrow> bool" where
  "in_range offset n m \<longleftrightarrow> unat offset + n \<le> length (memory m)"

definition view :: "u32 \<Rightarrow> nat \<Rightarrow> 'x module \<Rightarrow> bytes" where
  "view offset n m = take n (drop (unat offset) (memory m))"

definition Memory_Read :: "u32 \<Rightarrow> u32 \<Rightarrow> (bytes \<times> bool, 'x) go" where
  "Memory_Read offset byteCount m =
     (if in_range offset (unat byteCount) m
      then (Return (view offset (unat byteCount) m, True), m, [Read offset byteCount True])
      else (Return ([], False), m, [Read offset byteCount False]))"

definition Memory_Write :: "u32 \<Rightarrow> bytes \<Rightarrow> (bool, 'x) go" where
  "Memory_Write offset v m =
     (if in_range offset (length v) m
      then (Return True,
            m\<lparr>memory := take (unat offset) (memory m) @ v @
                          drop (unat offset + length v) (memory m)\<rparr>,
            [Write offset v True])
      else (Return False, m, [Write offset v False]))"

text \<open>
  A slice that \<open>Read\<close> returned is a window on the guest memory, not a copy: reading it
  later gives what the memory holds then.
\<close>

definition current :: "u32 \<Rightarrow> u32 \<Rightarrow> (bytes, 'x) go" where
  "current offset byteCount m = (Return (view offset (unat byteCount) m), m, [])"

text \<open>Indexing a result slice at 0: a run-time panic when the slice is empty.\<close>

definition index_out_of_range :: payload where
  "index_out_of_range = PError (RuntimeError ''index out of range [0] with length 0'')"

definition first :: "u64 list \<Rightarrow> (u64, 'x) go" where
  "first xs = (case xs of [] \<Rightarrow> panic index_out_of_range | x # rest \<Rightarrow> ret x)"

subsection \<open>The session's helpers\<close>

definition allocateSafe :: "'x guest \<Rightarrow> u64 \<Rightarrow> (u64 \<times> u64 \<times> error option, 'x) go" where
  "allocateSafe G sz =
     seq (Call G AllocFn [sz]) (\<lambda>(result, err).
       case err of
         Some e \<Rightarrow> ret (0, 0, Some e)
       | None \<Rightarrow> seq (first result) (\<lambda>r. ret (r, sz, None)))"

definition deallocateSafe :: "'x guest \<Rightarrow> u64 \<Rightarrow> u64 \<Rightarrow> (error option, 'x) go" where
  "deallocateSafe G ptr actualCapacity =
     seq (Call G DeallocFn [ptr, 0]) (\<lambda>(result, err). ret err)"

definition decodeLenPtr :: "u64 \<Rightarrow> u32 \<times> u32" where
  "decodeLenPtr encoded = (ucast encoded, ucast (drop_bit 32 encoded))"

text \<open>
  The deferred closure \<open>if err := s.deallocateSafe(ptr, 0); err != nil { log.Printf(msg, err) }\<close>
  and the deferred call \<open>s.deallocate.Call(s.ctx, ptr, size)\<close>, whose results are dropped.
\<close>

definition release :: "'x guest \<Rightarrow> u64 \<Rightarrow> string \<Rightarrow> (unit, 'x) go" where
  "release G ptr msg =
     seq (deallocateSafe G ptr 0) (\<lambda>err.
       case err of Some e \<Rightarrow> logging msg [ArgErr e] | None \<Rightarrow> ret ())"

definition release_call :: "'x guest \<Rightarrow> u64 \<Rightarrow> u64 \<Rightarrow> (unit, 'x) go" where
  "release_call G ptr sz = seq (Call G DeallocFn [ptr, sz]) (\<lambda>r. ret ())"

section \<open>The session's operations\<close>

text \<open>
  The repository holds two versions of \<open>session.go\<close>: one whose keys are Go strings
  (\<open>StringKey\<close>) and one whose keys are byte slices (\<open>ByteKey\<close>). The second checks for an
  empty result slice before it indexes it, decodes the words of \<open>new_private_key\<close>,
  \<open>get_address\<close> and \<open>sign\<close> with \<open>decodeLenPtr\<close>, and wipes key bytes in guest memory.
\<close>

datatype variant = StringKey | ByteKey

text \<open>
  Of the session's fields only \<open>mod\<close> changes or is tested (\<open>None\<close> is Go's \<open>nil\<close>); the nine
  resolved functions are the guest.
\<close>

record 'x session =
  smod :: "'x module option"

text \<open>
  The opening of every public operation: the liveness test, then the deferred
  \<open>recover\<close> closure around the rest.
\<close>

definition guarded :: "'r \<Rightarrow> ('r \<times> error option, 'x) go \<Rightarrow>
    'x session \<Rightarrow> ('r \<times> error option) exit \<times> 'x session \<times> event list" where
  "guarded zero body s =
     (case smod s of
        None \<Rightarrow> (Return (zero, Some ErrNoModule), s, [])
      | Some m \<Rightarrow>
          if is_closed m then (Return (zero, Some ErrNoModule), s, [])
          else (case recovering zero body m of (e, m1, t) \<Rightarrow> (e, s\<lparr>smod := Some m1\<rparr>, t)))"

text \<open>\<open>Close\<close> of a session closes its module, after which \<open>IsClosed\<close> is true.\<close>

definition Session_Close :: "'x session \<Rightarrow> 'x session" where
  "Session_Close s =
     (case smod s of None \<Rightarrow> s | Some m \<Rightarrow> s\<lparr>smod := Some (m\<lparr>is_closed := True\<rparr>)\<rparr>)"

subsection \<open>FormatMessage\<close>

definition FormatMessage_body :: "variant \<Rightarrow> 'x guest \<Rightarrow> bytes \<Rightarrow> int \<Rightarrow>
    (bytes \<times> error option, 'x) go" where
  "FormatMessage_body v G message targetChunks =
    (if targetChunks < 1 \<or> targetChunks > MAX_FORMAT_MESSAGE_CHUNKS then
       ret ([], Some (New ''target number of chunks must be between 1 and 32''))
     else if int (length message) > targetChunks * MESSAGE_FORMAT_BLOCK_SIZE then
       ret ([], Some (Errorf ''target formatted message length must be at most %d (%d chunks)''
                        [ArgInt (targetChunks * MESSAGE_FORMAT_BLOCK_SIZE), ArgInt targetChunks]))
     else
     let msgLen = (of_nat (length message) :: u64) in
     seq (allocateSafe G msgLen) (\<lambda>(messagePtr, cap, err).
     case err of
       Some e \<Rightarrow>
         seq (logging ''message allocate error:'' [ArgErr e]) (\<lambda>u.
         ret ([], Some (New ''failed to allocate memory for message'')))
     | None \<Rightarrow>
     deferring (release G messagePtr ''Failed to deallocate message memory: %v'')
      (seq (Memory_Write (ucast messagePtr) message) (\<lambda>ok.
       if \<not> ok then ret ([], Some (New ''failed to write message to memory for formatting''))
       else
       seq (Call G FormatMessageFn [messagePtr, msgLen, word_of_int targetChunks])
         (\<lambda>(formatResult, err).
       case err of
         Some e \<Rightarrow>
           seq (logging ''string format error:'' [ArgErr e]) (\<lambda>u.
           ret ([], Some (New ''failed to format message'')))
       | None \<Rightarrow>
       if v = ByteKey \<and> formatResult = [] then
         ret ([], Some (New ''invalid message: empty return''))
       else
       seq (first formatResult) (\<lambda>w.
       if w = 0 then ret ([], Some (New ''invalid message''))
       else
       let strLen = (ucast (drop_bit 32 w) :: u32); strPtr = (ucast w :: u32) in
       seq (Memory_Read strPtr strLen) (\<lambda>(buf, ok).
       if \<not> ok then ret ([], Some (New ''failed to convert message to a field''))
       else
       deferring (release_call G (ucast strPtr) (ucast strLen))
        (ret (filter (\<lambda>b. b \<noteq> 10) buf, None)))))))))"

definition FormatMessage :: "variant \<Rightarrow> 'x guest \<Rightarrow> bytes \<Rightarrow> int \<Rightarrow>
    'x session \<Rightarrow> (bytes \<times> error option) exit \<times> 'x session \<times> event list" where
  "FormatMessage v G message targetChunks = guarded [] (FormatMessage_body v G message targetChunks)"

subsection \<open>RecoverMessage\<close>

definition RecoverMessage_body :: "variant \<Rightarrow> 'x guest \<Rightarrow> bytes \<Rightarrow>
    (bytes \<times> error option, 'x) go" where
  "RecoverMessage_body v G formattedMessage =
    (let formattedMsgLen = (of_nat (length formattedMessage) :: u64) in
     seq (allocateSafe G formattedMsgLen) (\<lambda>(formattedMessagePtr, cap, err).
     case err of
       Some e \<Rightarrow>
         seq (logging ''message allocate error:'' [ArgErr e]) (\<lambda>u.
         ret ([], Some (New ''failed to allocate memory for message'')))
     | None \<Rightarrow>
     deferring (release G formattedMessagePtr ''Failed to deallocate formatted message memory: %v'')
      (seq (Memory_Write (ucast formattedMessagePtr) formattedMessage) (\<lambda>ok.
       if \<not> ok then ret ([], Some (New ''failed to write message to memory for recovering''))
       else
       seq (Call G RecoverMessageFn [formattedMessagePtr, formattedMsgLen])
         (\<lambda>(recoverResult, err).
       case err of
         Some e \<Rightarrow>
           seq (logging ''string recover error:'' [ArgErr e]) (\<lambda>u.
           ret ([], Some (New ''failed to recover message'')))
       | None \<Rightarrow>
       if v = ByteKey \<and> recoverResult = [] then
         ret ([], Some (New ''invalid message: empty return''))
       else
       seq (first recoverResult) (\<lambda>w.
       if w = 0 then ret ([], Some (New ''invalid message''))
       else
       let bufLen = (ucast (drop_bit 32 w) :: u32); bugPtr = (ucast w :: u32) in
       seq (Memory_Read bugPtr bufLen) (\<lambda>(buf, ok).
       if \<not> ok then ret ([], Some (New ''failed to convert message to a field''))
       else
       deferring (release_call G (ucast bugPtr) (ucast bufLen))
        (ret (buf, None)))))))))"

definition RecoverMessage :: "variant \<Rightarrow> 'x guest \<Rightarrow> bytes \<Rightarrow>
    'x session \<Rightarrow> (bytes \<times> error option) exit \<times> 'x session \<times> event list" where
  "RecoverMessage v G formattedMessage = guarded [] (RecoverMessage_body v G formattedMessage)"

subsection \<open>HashMessageToString and HashMessage\<close>

definition HashMessageToString_body :: "variant \<Rightarrow> 'x guest \<Rightarrow> bytes \<Rightarrow>
    (bytes \<times> error option, 'x) go" where
  "HashMessageToString_body v G message =
    (let msgLen = (of_nat (length message) :: u64) in
     seq (allocateSafe G msgLen) (\<lambda>(messagePtr, cap, err).
     case err of
       Some e \<Rightarrow>
         seq (logging ''message allocate error:'' [ArgErr e]) (\<lambda>u.
         ret ([], Some (New ''failed to allocate memory for message'')))
     | None \<Rightarrow>
     deferring (release G messagePtr ''Failed to deallocate hash message memory: %v'')
      (seq (Memory_Write (ucast messagePtr) message) (\<lambda>ok.
       if \<not> ok then ret ([], Some (New ''failed to write message to memory for hashing''))
       else
       seq (Call G HashMessageFn [messagePtr, msgLen]) (\<lambda>(hashResult, err).
       case err of
         Some e \<Rightarrow>
           seq (logging ''hash message error:'' [ArgErr e]) (\<lambda>u.
           ret ([], Some (New ''failed to hash message to a string representation'')))
       | None \<Rightarrow>
       if v = ByteKey \<and> hashResult = [] then
         ret ([], Some (New ''invalid message: empty return''))
       else
       seq (first hashResult) (\<lambda>w.
       if w = 0 then ret ([], Some (New ''invalid message''))
       else
       let hashLen = (ucast (drop_bit 32 w) :: u32); hashPtr = (ucast w :: u32) in
       seq (Memory_Read hashPtr hashLen) (\<lambda>(hashBytes, ok).
       if \<not> ok then ret ([], Some (New ''failed to convert message to a field''))
       else
       deferring (release_call G (ucast hashPtr) (ucast hashLen))
        (ret (hashBytes, None)))))))))"

definition HashMessageToString :: "variant \<Rightarrow> 'x guest \<Rightarrow> bytes \<Rightarrow>
    'x session \<Rightarrow> (bytes \<times> error option) exit \<times> 'x session \<times> event list" where
  "HashMessageToString v G message = guarded [] (HashMessageToString_body v G message)"

definition HashMessage_body :: "variant \<Rightarrow> 'x guest \<Rightarrow> bytes \<Rightarrow>
    (bytes \<times> error option, 'x) go" where
  "HashMessage_body v G message =
    (let msgLen = (of_nat (length message) :: u64) in
     seq (allocateSafe G msgLen) (\<lambda>(messagePtr, cap, err).
     case err of
       Some e \<Rightarrow>
         seq (logging ''message allocate error:'' [ArgErr e]) (\<lambda>u.
         ret ([], Some (New ''failed to allocate memory for message'')))
     | None \<Rightarrow>
     deferring (release G messagePtr ''Failed to deallocate hash message bytes memory: %v'')
      (seq (Memory_Write (ucast messagePtr) message) (\<lambda>ok.
       if \<not> ok then ret ([], Some (New ''failed to write message to memory for hashing''))
       else
       seq (Call G HashMessageBytesFn [messagePtr, msgLen]) (\<lambda>(hashResult, err).
       case err of
         Some e \<Rightarrow>
           seq (logging ''hash message bytes error:'' [ArgErr e]) (\<lambda>u.
           ret ([], Some (New ''failed to hash message'')))
       | None \<Rightarrow>
       if v = ByteKey \<and> hashResult = [] then
         ret ([], Some (New ''invalid message: empty return''))
       else
       seq (first hashResult) (\<lambda>w.
       if w = 0 then ret ([], Some (New ''invalid message''))
       else
       let hashLen = (ucast (drop_bit 32 w) :: u32); hashPtr = (ucast w :: u32) in
       seq (Memory_Read hashPtr hashLen) (\<lambda>(buf, ok).
       if \<not> ok then ret ([], Some (New ''failed to convert message to a field''))
       else
       deferring (release_call G (ucast hashPtr) (ucast hashLen))
        (ret (buf, None)))))))))"

definition HashMessage :: "variant \<Rightarrow> 'x guest \<Rightarrow> bytes \<Rightarrow>
    'x session \<Rightarrow> (bytes \<times> error option) exit \<times> 'x session \<times> event list" where
  "HashMessage v G message = guarded [] (HashMessage_body v G message)"

subsection \<open>Sign\<close>

text \<open>
  Both versions agree up to the call of the guest's \<open>sign\<close>. The string-key version then
  tests the whole result word against 0 and reads \<open>SIGNATURE_SIZE\<close> bytes; the byte-key
  version decodes the word, and on its last stretch overwrites the key region with zeros
  before it converts the signature slice (a window on guest memory) to a string.
\<close>

definition Sign_body :: "variant \<Rightarrow> 'x guest \<Rightarrow> bytes \<Rightarrow> bytes \<Rightarrow>
    (bytes \<times> error option, 'x) go" where
  "Sign_body v G key message =
    (if length key \<noteq> PRIVATE_KEY_SIZE then ret ([], Some (New ''invalid private key size''))
     else
     let msgLen = (of_nat (length message) :: u64) in
     seq (allocateSafe G msgLen) (\<lambda>(messagePtr, cap, err).
     case err of
       Some e \<Rightarrow>
         seq (logging ''message allocate error:'' [ArgErr e]) (\<lambda>u.
         ret ([], Some (New ''failed to allocate memory for message'')))
     | None \<Rightarrow>
     deferring (release G messagePtr ''Failed to deallocate message memory in Sign: %v'')
      (seq (Memory_Write (ucast messagePtr) message) (\<lambda>ok.
       if \<not> ok then
         ret ([], Some (New ''failed to write formatted message to memory for signing''))
       else
       seq (allocateSafe G (of_nat PRIVATE_KEY_SIZE)) (\<lambda>(privateKeyPtr, cap, err).
       case err of
         Some e \<Rightarrow>
           seq (logging ''private key allocate error:'' [ArgErr e]) (\<lambda>u.
           ret ([], Some (New ''failed to allocate memory for private key'')))
       | None \<Rightarrow>
       deferring (release G privateKeyPtr ''Failed to deallocate private key memory in Sign: %v'')
        (seq (Memory_Write (ucast privateKeyPtr) key) (\<lambda>ok.
         if \<not> ok then
           ret ([], Some (New ''failed to write private key to memory for signing''))
         else
         seq (Call G SignFn [privateKeyPtr, of_nat PRIVATE_KEY_SIZE, messagePtr, msgLen])
           (\<lambda>(signaturePtr, err).
         case err of
           Some e \<Rightarrow>
             seq (logging ''sign error:'' [ArgErr e]) (\<lambda>u.
             ret ([], Some (New ''failed to sign message'')))
         | None \<Rightarrow>
         (case v of
            StringKey \<Rightarrow>
              seq (first signaturePtr) (\<lambda>w.
              if w = 0 then ret ([], Some (New ''internal error when signing message''))
              else
              seq (Memory_Read (ucast w) (of_nat SIGNATURE_SIZE)) (\<lambda>(sig, ok).
              if \<not> ok then ret ([], Some (New ''failed to sign message''))
              else
              deferring (release_call G w (of_nat SIGNATURE_SIZE))
               (ret (sig, None))))
          | ByteKey \<Rightarrow>
              if signaturePtr = [] then
                ret ([], Some (New ''internal error when signing message: empty return''))
              else
              seq (first signaturePtr) (\<lambda>w.
              let (sigPtr, sigLen) = decodeLenPtr w in
              if sigPtr = 0 \<or> sigLen = 0 then
                ret ([], Some (New ''internal error when signing message''))
              else
              seq (if sigLen \<noteq> of_nat SIGNATURE_SIZE
                   then logging ''unexpected signature length %d (expected %d)''
                          [ArgInt (uint sigLen), ArgInt (int SIGNATURE_SIZE)]
                   else ret ()) (\<lambda>u.
              seq (Memory_Read sigPtr sigLen) (\<lambda>(sig, ok).
              if \<not> ok then ret ([], Some (New ''failed to sign message''))
              else
              deferring (release G (ucast sigPtr) ''Failed to deallocate signature memory: %v'')
               (seq (Memory_Write (ucast privateKeyPtr) (replicate PRIVATE_KEY_SIZE 0)) (\<lambda>ok.
                seq (current sigPtr sigLen) (\<lambda>signature.
                ret (signature, None))))))))))))))))"

definition Sign :: "variant \<Rightarrow> 'x guest \<Rightarrow> bytes \<Rightarrow> bytes \<Rightarrow>
    'x session \<Rightarrow> (bytes \<times> error option) exit \<times> 'x session \<times> event list" where
  "Sign v G key message = guarded [] (Sign_body v G key message)"

subsection \<open>NewPrivateKey\<close>

text \<open>
  The deferred closure of the byte-key version that takes the key region as arguments:
  a write of \<open>length\<close> zero bytes at \<open>ptr\<close> whose result is dropped, then the release.
\<close>

definition wipe_and_release :: "'x guest \<Rightarrow> u32 \<Rightarrow> u32 \<Rightarrow> (unit, 'x) go" where
  "wipe_and_release G ptr len =
     seq (Memory_Write ptr (replicate (unat len) 0)) (\<lambda>ok.
     release G (ucast ptr) ''Failed to deallocate private key memory: %v'')"

definition NewPrivateKey_body :: "variant \<Rightarrow> 'x guest \<Rightarrow>
    ((bytes \<times> bytes) \<times> error option, 'x) go" where
  "NewPrivateKey_body v G =
    seq (Call G NewPrivateKeyFn []) (\<lambda>(privKeyPtr, err).
    case err of
      Some e \<Rightarrow>
        seq (logging ''new_private_key error:'' [ArgErr e]) (\<lambda>u.
        ret (([], []), Some e))
    | None \<Rightarrow>
    (case v of
       StringKey \<Rightarrow>
         seq (first privKeyPtr) (\<lambda>w.
         if w = 0 then ret (([], []), Some (New ''failed to create new private key''))
         else
         seq (Memory_Read (ucast w) (of_nat PRIVATE_KEY_SIZE)) (\<lambda>(privKey, ok).
         if \<not> ok then ret (([], []), Some (New ''failed to create new private key''))
         else
         deferring (release_call G w (of_nat PRIVATE_KEY_SIZE))
          (let key = privKey in
           seq (Call G GetAddressFn [w, of_nat PRIVATE_KEY_SIZE]) (\<lambda>(addressPtr, err).
           case err of
             Some e \<Rightarrow>
               seq (logging ''get_address error:'' [ArgErr e]) (\<lambda>u.
               ret (([], []),
                    Some (New ''failed to get address from the generated private key'')))
           | None \<Rightarrow>
           seq (first addressPtr) (\<lambda>a.
           if a = 0 then
             ret (([], []), Some (New
               ''internal error when getting address from the generated private key''))
           else
           seq (Memory_Read (ucast a) (of_nat ADDRESS_SIZE)) (\<lambda>(addr, ok).
           if \<not> ok then
             ret (([], []),
                  Some (New ''failed to convert generated private key to address''))
           else
           deferring (release_call G a (of_nat ADDRESS_SIZE))
            (ret ((key, addr), None))))))))
     | ByteKey \<Rightarrow>
         if privKeyPtr = [] then
           ret (([], []), Some (New ''failed to create new private key: empty return''))
         else
         seq (first privKeyPtr) (\<lambda>w.
         let (keyPtr, keyLen) = decodeLenPtr w in
         if keyPtr = 0 \<or> keyLen = 0 then
           ret (([], []), Some (New ''failed to create new private key: invalid pointer''))
         else
         seq (if keyLen \<noteq> of_nat PRIVATE_KEY_SIZE
              then logging ''unexpected private key length %d (expected %d)''
                     [ArgInt (uint keyLen), ArgInt (int PRIVATE_KEY_SIZE)]
              else ret ()) (\<lambda>u.
         deferring (wipe_and_release G keyPtr keyLen)
          (seq (Memory_Read keyPtr keyLen) (\<lambda>(privKeyWasm, ok).
           if \<not> ok then ret (([], []), Some (New ''failed to create new private key''))
           else
           let key = privKeyWasm in
           seq (Call G GetAddressFn [ucast keyPtr, ucast keyLen]) (\<lambda>(addressPtr, err).
           case err of
             Some e \<Rightarrow>
               seq (logging ''get_address error:'' [ArgErr e]) (\<lambda>u.
               ret (([], []),
                    Some (New ''failed to get address from the generated private key'')))
           | None \<Rightarrow>
           if addressPtr = [] then
             ret (([], []), Some (New
               ''internal error when getting address from the generated private key: empty return''))
           else
           seq (first addressPtr) (\<lambda>a.
           let (addrPtr, addrLen) = decodeLenPtr a in
           if addrPtr = 0 \<or> addrLen = 0 then
             ret (([], []), Some (New
               ''internal error when getting address from the generated private key''))
           else
           seq (if addrLen \<noteq> of_nat ADDRESS_SIZE
                then logging ''unexpected address length %d (expected %d)''
                       [ArgInt (uint addrLen), ArgInt (int ADDRESS_SIZE)]
                else ret ()) (\<lambda>u.
           deferring (release G (ucast addrPtr) ''Failed to deallocate address memory: %v'')
            (seq (Memory_Read addrPtr addrLen) (\<lambda>(addr, ok).
             if \<not> ok then
               ret (([], []),
                    Some (New ''failed to convert generated private key to address''))
             else
             ret ((key, addr), None))))))))))))"

definition NewPrivateKey :: "variant \<Rightarrow> 'x guest \<Rightarrow>
    'x session \<Rightarrow> ((bytes \<times> bytes) \<times> error option) exit \<times> 'x session \<times> event list" where
  "NewPrivateKey v G = guarded ([], []) (NewPrivateKey_body v G)"

subsection \<open>The Session interface as a whole\<close>

text \<open>
  One value per method of the \<open>Session\<close> interface, and what each gives back, so that
  a statement about every public operation, or about any sequence of them on one
  session, can be made once.
\<close>

datatype request =
    ReqNewPrivateKey
  | ReqFormatMessage bytes int
  | ReqRecoverMessage bytes
  | ReqHashMessageToString bytes
  | ReqHashMessage bytes
  | ReqSign bytes bytes
  | ReqClose

datatype response =
    KeyAddress bytes bytes "error option"
  | Output bytes "error option"
  | Closed

fun answer_key :: "((bytes \<times> bytes) \<times> error option) exit \<Rightarrow> response exit" where
  "answer_key (Return ((key, address), err)) = Return (KeyAddress key address err)"
| "answer_key (Panic p) = Panic p"

fun answer :: "(bytes \<times> error option) exit \<Rightarrow> response exit" where
  "answer (Return (out, err)) = Return (Output out err)"
| "answer (Panic p) = Panic p"

fun perform :: "variant \<Rightarrow> 'x guest \<Rightarrow> request \<Rightarrow> 'x session \<Rightarrow>
    response exit \<times> 'x session \<times> event list" where
  "perform v G ReqNewPrivateKey s =
     (case NewPrivateKey v G s of (e, s1, t) \<Rightarrow> (answer_key e, s1, t))"
| "perform v G (ReqFormatMessage message targetChunks) s =
     (case FormatMessage v G message targetChunks s of (e, s1, t) \<Rightarrow> (answer e, s1, t))"
| "perform v G (ReqRecoverMessage formattedMessage) s =
     (case RecoverMessage v G formattedMessage s of (e, s1, t) \<Rightarrow> (answer e, s1, t))"
| "perform v G (ReqHashMessageToString message) s =
     (case HashMessageToString v G message s of (e, s1, t) \<Rightarrow> (answer e, s1, t))"
| "perform v G (ReqHashMessage message) s =
     (case HashMessage v G message s of (e, s1, t) \<Rightarrow> (answer e, s1, t))"
| "perform v G (ReqSign key message) s =
     (case Sign v G key message s of (e, s1, t) \<Rightarrow> (answer e, s1, t))"
| "perform v G ReqClose s = (Return Closed, Session_Close s, [])"

text \<open>
  A sequence of calls on one session: each call starts from the session the previous one
  left. The result lists every call with its exit and its events.
\<close>

fun run :: "variant \<Rightarrow> 'x guest \<Rightarrow> request list \<Rightarrow> 'x session \<Rightarrow>
    (request \<times> response exit \<times> event list) list \<times> 'x session" where
  "run v G [] s = ([], s)"
| "run v G (req # reqs) s =
     (case perform v G req s of (e, s1, t) \<Rightarrow>
        (case run v G reqs s1 of (later, s2) \<Rightarrow> ((req, e, t) # later, s2)))"

text \<open>An error return: the error is set and every other result has its zero value.\<close>

fun failed_with :: "response exit \<Rightarrow> error \<Rightarrow> bool" where
  "failed_with (Return (KeyAddress key address err)) e \<longleftrightarrow> key = [] \<and> address = [] \<and> err = Some e"
| "failed_with (Return (Output out err)) e \<longleftrightarrow> out = [] \<and> err = Some e"
| "failed_with (Return Closed) e \<longleftrightarrow> False"
| "failed_with (Panic p) e \<longleftrightarrow> False"

section \<open>The wrapper\<close>

text \<open>
  \<open>aleoWrapper\<close> holds the wazero runtime (\<open>None\<close> is \<open>nil\<close>) and the flag
  \<open>runtimeActive\<close>; the compiled module and the module configuration never change and are
  part of the runtime here. What wazero and the Go runtime do is a parameter: instantiating
  a module gives an error, or a fresh module together with those of the nine functions it
  exports; \<open>MapOrder\<close> ranks the keys of a Go map for one \<open>range\<close> over it, which visits
  them in an order the language does not fix.
\<close>

record 'r aleoWrapper =
  runtime :: "'r option"
  runtimeActive :: bool

record ('r, 'x) wazero =
  InstantiateModule :: "'r \<Rightarrow> (error + 'x module \<times> fn list) \<times> 'r"
  Runtime_Close :: "'r \<Rightarrow> 'r"
  MapOrder :: "'r \<Rightarrow> fn \<Rightarrow> nat"

definition required :: "fn list" where
  "required = [NewPrivateKeyFn, GetAddressFn, SignFn, AllocFn, DeallocFn, HashMessageFn,
               HashMessageBytesFn, FormatMessageFn, RecoverMessageFn]"

text \<open>
  \<open>for name, fn := range required\<close>: the nine keys in the order of this \<open>range\<close>, any
  permutation of them, as \<open>MapOrder\<close> ranks them.
\<close>

definition ranged :: "('r, 'x) wazero \<Rightarrow> 'r \<Rightarrow> fn list" where
  "ranged W r = sort_key (MapOrder W r) required"

text \<open>
  \<open>NewSession\<close>. The names of the missing exports are collected in the order of the
  \<open>range\<close> over the map \<open>required\<close>.
\<close>

definition NewSession :: "('r, 'x) wazero \<Rightarrow> 'r aleoWrapper \<Rightarrow>
    ('x session option \<times> error option) \<times> 'r aleoWrapper" where
  "NewSession W s =
     (case runtime s of
        None \<Rightarrow> ((None, Some ErrNoRuntime), s\<lparr>runtime := None\<rparr>)
      | Some r \<Rightarrow>
          if \<not> runtimeActive s then ((None, Some ErrNoRuntime), s\<lparr>runtime := None\<rparr>)
          else
            (case InstantiateModule W r of
               (Inl err, r1) \<Rightarrow>
                 ((None, Some (Errorf ''failed to instantiate wrapper session: %w'' [ArgErr err])),
                  s\<lparr>runtime := Some r1\<rparr>)
             | (Inr (m, exported), r1) \<Rightarrow>
                 let missing = filter (\<lambda>f. f \<notin> set exported) (ranged W r1) in
                 if length missing > 0 then
                   ((None, Some (Errorf ''missing required wasm exports: %v''
                                   [ArgNames (map export_name missing)])),
                    s\<lparr>runtime := Some r1\<rparr>)
                 else ((Some \<lparr>smod = Some m\<rparr>, None), s\<lparr>runtime := Some r1\<rparr>)))"

definition Wrapper_Close :: "('r, 'x) wazero \<Rightarrow> 'r aleoWrapper \<Rightarrow> 'r aleoWrapper" where
  "Wrapper_Close W s =
     (case runtime s of
        None \<Rightarrow> s\<lparr>runtimeActive := False\<rparr>
      | Some r \<Rightarrow> s\<lparr>runtime := Some (Runtime_Close W r), runtimeActive := False\<rparr>)"

datatype wrapper_request = WNewSession | WClose

text \<open>A sequence of calls on one wrapper; the result lists what each \<open>NewSession\<close> gave.\<close>

fun wrapper_run :: "('r, 'x) wazero \<Rightarrow> wrapper_request list \<Rightarrow> 'r aleoWrapper \<Rightarrow>
    ('x session option \<times> error option) list \<times> 'r aleoWrapper" where
  "wrapper_run W [] s = ([], s)"
| "wrapper_run W (WNewSession # reqs) s =
     (case NewSession W s of (r, s1) \<Rightarrow>
        (case wrapper_run W reqs s1 of (later, s2) \<Rightarrow> (r # later, s2)))"
| "wrapper_run W (WClose # reqs) s = wrapper_run W reqs (Wrapper_Close W s)"

section \<open>Reading a trace\<close>

text \<open>The panics a trace records, and the one that was raised last.\<close>

fun panic_of :: "event \<Rightarrow> payload option" where
  "panic_of (Invoke f args (Pan p)) = Some p"
| "panic_of (Raised p) = Some p"
| "panic_of e = None"

fun last_panic :: "event list \<Rightarrow> payload option" where
  "last_panic [] = None"
| "last_panic (e # es) = (case last_panic es of Some p \<Rightarrow> Some p | None \<Rightarrow> panic_of e)"

text \<open>
  Guest memory the host has to give back. A call of the guest's \<open>dealloc\<close> names a
  pointer (the low 32 bits of its first argument). A region becomes the host's to release
  when \<open>alloc\<close> returns its pointer, and a result buffer when the host has read it out of
  guest memory; the byte-key \<open>NewPrivateKey\<close> (\<open>on_accept\<close>) takes the key and address
  buffers over earlier, when it accepts their packed words.
\<close>

fun dealloc_ptr :: "event \<Rightarrow> u32 option" where
  "dealloc_ptr (Invoke f (q # rest) r) = (if f = DeallocFn then Some (ucast q) else None)"
| "dealloc_ptr e = None"

fun takes :: "bool \<Rightarrow> event \<Rightarrow> u32 option" where
  "takes on_accept (Invoke f args (Ret (w # ws))) =
     (if f = AllocFn then Some (ucast w)
      else if on_accept \<and> (f = NewPrivateKeyFn \<or> f = GetAddressFn) \<and>
              fst (decodeLenPtr w) \<noteq> 0 \<and> snd (decodeLenPtr w) \<noteq> 0
      then Some (fst (decodeLenPtr w))
      else None)"
| "takes on_accept (Read p n ok) = (if ok \<and> \<not> on_accept then Some p else None)"
| "takes on_accept e = None"

definition on_accept :: "variant \<Rightarrow> request \<Rightarrow> bool" where
  "on_accept v req \<longleftrightarrow> v = ByteKey \<and> req = ReqNewPrivateKey"

text \<open>
  \<open>settle b t live\<close> runs through the trace with the stack of regions still to be
  released: taking a region over pushes it, a \<open>dealloc\<close> call must name the region on top
  and pops it. The result is the stack left at the end; \<open>None\<close> means that some
  \<open>dealloc\<close> call named anything else than the region taken over last. So
  \<open>settle b t [] = Some []\<close> says: every region taken over is released by exactly one
  \<open>dealloc\<close> call, later in the same trace, innermost first, and \<open>dealloc\<close> is called
  for nothing else.
\<close>

fun settle :: "bool \<Rightarrow> event list \<Rightarrow> u32 list \<Rightarrow> u32 list option" where
  "settle b [] live = Some live"
| "settle b (e # es) live =
     (case dealloc_ptr e of
        Some q \<Rightarrow>
          (case live of [] \<Rightarrow> None | p # ps \<Rightarrow> if q = p then settle b es ps else None)
      | None \<Rightarrow>
          (case takes b e of Some p \<Rightarrow> settle b es (p # live) | None \<Rightarrow> settle b es live))"





text \<open>
  What a deferred release adds to a trace after its \<open>dealloc\<close> call ended with \<open>r\<close>
  (the log line when the call returned an error), and what it does to the exit (a panic
  of the call replaces it).
\<close>

fun complaint :: "string \<Rightarrow> ending \<Rightarrow> event list" where
  "complaint msg (Err x) = [Logged msg [ArgErr x]]"
| "complaint msg r = []"

fun after :: "ending \<Rightarrow> 'a exit \<Rightarrow> 'a exit" where
  "after (Pan p) e = Panic p"
| "after r e = e"

text \<open>
  Key bytes in guest memory. \<open>is_wipe p n e\<close>: the event is a write of \<open>n\<close> zero bytes at
  \<open>p\<close>, whatever its \<open>ok\<close> flag. \<open>wiped_after_sign None t\<close>: the guest's \<open>sign\<close> is
  called in \<open>t\<close>, and after that call the first write of 59 zero bytes at the key pointer it
  was given comes before any \<open>dealloc\<close> call, and a \<open>dealloc\<close> call for that pointer
  follows.
\<close>

fun is_wipe :: "u32 \<Rightarrow> nat \<Rightarrow> event \<Rightarrow> bool" where
  "is_wipe p n (Write q bs ok) \<longleftrightarrow> q = p \<and> bs = replicate n 0"
| "is_wipe p n e \<longleftrightarrow> False"

fun sign_key_ptr :: "event \<Rightarrow> u64 option" where
  "sign_key_ptr (Invoke f (kp # rest) r) = (if f = SignFn then Some kp else None)"
| "sign_key_ptr e = None"

fun wiped_after_sign :: "u64 option \<Rightarrow> event list \<Rightarrow> bool" where
  "wiped_after_sign st [] \<longleftrightarrow> False"
| "wiped_after_sign None (e # es) \<longleftrightarrow> wiped_after_sign (sign_key_ptr e) es"
| "wiped_after_sign (Some kp) (e # es) \<longleftrightarrow>
     (if is_wipe (ucast kp) PRIVATE_KEY_SIZE e then list_ex (\<lambda>d. dealloc_ptr d = Some (ucast kp)) es
      else if dealloc_ptr e \<noteq> None then False
      else wiped_after_sign (Some kp) es)"

text \<open>The format strings of the log calls in the byte-key \<open>NewPrivateKey\<close> and \<open>Sign\<close>.\<close>

definition NewPrivateKey_log_lines :: "string list" where
  "NewPrivateKey_log_lines =
     [''new_private_key error:'', ''unexpected private key length %d (expected %d)'',
      ''Failed to deallocate private key memory: %v'', ''get_address error:'',
      ''unexpected address length %d (expected %d)'', ''Failed to deallocate address memory: %v'']"

definition Sign_log_lines :: "string list" where
  "Sign_log_lines =
     [''message allocate error:'', ''Failed to deallocate message memory in Sign: %v'',
      ''private key allocate error:'', ''Failed to deallocate private key memory in Sign: %v'',
      ''sign error:'', ''unexpected signature length %d (expected %d)'',
      ''Failed to deallocate signature memory: %v'']"

section \<open>Notions used in the proofs\<close>

text \<open>
  Each is a property of a piece of Go code that holds from whatever module it starts.
  \<open>strict\<close>: the code panics exactly when its trace records a panic, with the payload
  recorded last. \<open>ends b l l'\<close>: the stack of regions to release goes from \<open>l\<close> to \<open>l'\<close>.
  \<open>post c Q\<close>: every exit and trace of \<open>c\<close> satisfies \<open>Q\<close>.
\<close>

fun exact :: "'a exit \<Rightarrow> event list \<Rightarrow> bool" where
  "exact (Return a) t \<longleftrightarrow> last_panic t = None"
| "exact (Panic p) t \<longleftrightarrow> last_panic t = Some p"

definition strict :: "('a, 'x) go \<Rightarrow> bool" where
  "strict c \<longleftrightarrow> (\<forall>m. exact (fst (c m)) (snd (snd (c m))))"

definition ends :: "bool \<Rightarrow> u32 list \<Rightarrow> u32 list \<Rightarrow> ('a, 'x) go \<Rightarrow> bool" where
  "ends b l l' c \<longleftrightarrow> (\<forall>m. settle b (snd (snd (c m))) l = Some l')"


definition post :: "('a, 'x) go \<Rightarrow> ('a exit \<Rightarrow> event list \<Rightarrow> bool) \<Rightarrow> bool" where
  "post c Q \<longleftrightarrow> (\<forall>m. Q (fst (c m)) (snd (snd (c m))))"

fun refused :: "'r \<Rightarrow> ('r \<times> error option) exit \<Rightarrow> bool" where
  "refused zero (Return (r, err)) \<longleftrightarrow> r = zero \<and> err \<noteq> None"
| "refused zero (Panic p) \<longleftrightarrow> True"

definition shut :: "'x session \<Rightarrow> bool" where
  "shut s \<longleftrightarrow> (case smod s of None \<Rightarrow> True | Some m \<Rightarrow> is_closed m)"

section \<open>Concrete guests for the examples\<close>

text \<open>
  A scripted guest ends every call of a function the same way and leaves the module as it
  is. The examples run on a module with 256 bytes of memory: sixteen bytes 0, sixty-four
  bytes 1, the rest 2.
\<close>

definition scripted :: "(fn \<Rightarrow> ending) \<Rightarrow> unit guest" where
  "scripted r f args m =
     (case r f of Ret rs \<Rightarrow> Returned rs m | Err x \<Rightarrow> Failed x m | Pan p \<Rightarrow> Panicked p m)"

definition memoryA :: "unit module" where
  "memoryA = \<lparr>memory = replicate 16 0 @ replicate 64 1 @ replicate 176 2,
               is_closed = False, internal = ()\<rparr>"

definition sessionA :: "unit session" where
  "sessionA = \<lparr>smod = Some memoryA\<rparr>"

text \<open>
  The tidy script: \<open>alloc\<close> gives pointer 8, \<open>new_private_key\<close> 59 bytes at 16,
  \<open>get_address\<close> 63 bytes at 80, \<open>sign\<close> 216 bytes at 32, the message functions a few
  bytes at 100.
\<close>

fun tidy :: "fn \<Rightarrow> ending" where
  "tidy AllocFn = Ret [8]"
| "tidy DeallocFn = Ret []"
| "tidy NewPrivateKeyFn = Ret [0x3B00000010]"
| "tidy GetAddressFn = Ret [0x3F00000050]"
| "tidy SignFn = Ret [0xD800000020]"
| "tidy FormatMessageFn = Ret [0x400000064]"
| "tidy RecoverMessageFn = Ret [0x200000064]"
| "tidy HashMessageFn = Ret [0x800000064]"
| "tidy HashMessageBytesFn = Ret [0x1000000064]"

definition wrapperA :: "unit aleoWrapper" where
  "wrapperA = \<lparr>runtime = Some (), runtimeActive = True\<rparr>"

definition wazeroA :: "(unit, unit) wazero" where
  "wazeroA = \<lparr>InstantiateModule = (\<lambda>r. (Inr (memoryA, required), r)), Runtime_Close = (\<lambda>r. r),
               MapOrder = (\<lambda>r f. 0)\<rparr>"

section \<open>Basic facts\<close>

lemma seq_ret [simp]: "seq (ret a) k = k a"
  by (rule ext) (simp add: seq_def ret_def split: prod.splits)

lemma first_Cons [simp]: "first (x # xs) = ret x"
  by (simp add: first_def)

lemma ucast_down_up [simp]: "(ucast (ucast (p :: u32) :: u64) :: u32) = p"
  by (simp add: ucast_down_ucast_id is_down)

lemma session_same [simp]: "smod s = Some m \<Longrightarrow> s\<lparr>smod := Some m\<rparr> = s"
  by (cases s) simp

lemma guarded_open:
  "smod s = Some m \<Longrightarrow> \<not> is_closed m \<Longrightarrow>
   guarded zero body s =
     (case recovering zero body m of (e, m1, t) \<Rightarrow> (e, s\<lparr>smod := Some m1\<rparr>, t))"
  by (simp add: guarded_def)

lemma guarded_shut:
  "shut s \<Longrightarrow> guarded zero body s = (Return (zero, Some ErrNoModule), s, [])"
  by (auto simp: guarded_def shut_def split: option.splits)

lemma guarded_cases:
  assumes "guarded zero body s = (e, s1, t)"
  obtains "shut s" and "e = Return (zero, Some ErrNoModule)" and "t = []" and "s1 = s"
  | m e0 m1 where "smod s = Some m" and "\<not> is_closed m" and "body m = (e0, m1, t)"
      and "e = (case e0 of Return r \<Rightarrow> Return r | Panic p \<Rightarrow> Return (zero, Some (recovered p)))"
  using assms
  by (auto simp: guarded_def shut_def recovering_def split: option.splits if_splits prod.splits exit.splits)

section \<open>Panics are recorded\<close>

lemma last_panic_append:
  "last_panic (a @ b) = (case last_panic b of Some p \<Rightarrow> Some p | None \<Rightarrow> last_panic a)"
  by (induction a) (auto split: option.splits)

lemma strictD: "strict c \<Longrightarrow> c m = (e, m1, t) \<Longrightarrow> exact e t"
  by (auto simp: strict_def dest!: spec[of _ m])

lemma strict_ret [simp]: "strict (ret a)"
  by (simp add: strict_def ret_def)

lemma strict_panic [simp]: "strict (panic p)"
  by (simp add: strict_def panic_def)

lemma strict_logging [simp]: "strict (logging s as)"
  by (simp add: strict_def logging_def)

lemma strict_Call [simp]: "strict (Call G f args)"
  by (simp add: strict_def Call_def split: reply.splits)

lemma strict_Memory_Read [simp]: "strict (Memory_Read p n)"
  by (simp add: strict_def Memory_Read_def)

lemma strict_Memory_Write [simp]: "strict (Memory_Write p bs)"
  by (simp add: strict_def Memory_Write_def)

lemma strict_current [simp]: "strict (current p n)"
  by (simp add: strict_def current_def)

lemma strict_first [simp]: "strict (first xs)"
  by (cases xs) (simp_all add: first_def)

lemma strict_seq:
  assumes f: "strict f" and k: "\<And>a. strict (k a)"
  shows "strict (seq f k)"
  unfolding strict_def
proof
  fix m
  obtain e m1 t1 where fm: "f m = (e, m1, t1)" by (cases "f m") auto
  from strictD[OF f fm] have e1: "exact e t1" .
  show "exact (fst (seq f k m)) (snd (snd (seq f k m)))"
  proof (cases e)
    case (Return a)
    obtain e2 m2 t2 where km: "k a m1 = (e2, m2, t2)" by (cases "k a m1") auto
    from strictD[OF k km] have "exact e2 t2" .
    with e1 Return fm km show ?thesis
      by (cases e2) (simp_all add: seq_def last_panic_append)
  next
    case (Panic p)
    with e1 fm show ?thesis by (simp add: seq_def)
  qed
qed

lemma strict_deferring:
  assumes d: "strict d" and b: "strict b"
  shows "strict (deferring d b)"
  unfolding strict_def
proof
  fix m
  obtain e m1 t1 where bm: "b m = (e, m1, t1)" by (cases "b m") auto
  obtain e2 m2 t2 where dm: "d m1 = (e2, m2, t2)" by (cases "d m1") auto
  from strictD[OF b bm] have e1: "exact e t1" .
  from strictD[OF d dm] have e2: "exact e2 t2" .
  from e1 e2 bm dm show "exact (fst (deferring d b m)) (snd (snd (deferring d b m)))"
    by (cases e; cases e2) (auto simp: deferring_def last_panic_append)
qed

lemma strict_release [simp]: "strict (release G p msg)"
  by (auto simp: release_def deallocateSafe_def intro!: strict_seq split: option.splits)

lemma strict_release_call [simp]: "strict (release_call G p n)"
  by (auto simp: release_call_def intro!: strict_seq)

lemma strict_wipe_and_release [simp]: "strict (wipe_and_release G p n)"
  by (auto simp: wipe_and_release_def intro!: strict_seq)

lemma strict_allocateSafe [simp]: "strict (allocateSafe G n)"
  by (auto simp: allocateSafe_def intro!: strict_seq split: option.splits)

lemma strict_FormatMessage_body: "strict (FormatMessage_body v G msg c)"
  by (auto simp: FormatMessage_body_def Let_def intro!: strict_seq strict_deferring
      split: option.splits)

lemma strict_RecoverMessage_body: "strict (RecoverMessage_body v G msg)"
  by (auto simp: RecoverMessage_body_def Let_def intro!: strict_seq strict_deferring
      split: option.splits)

lemma strict_HashMessageToString_body: "strict (HashMessageToString_body v G msg)"
  by (auto simp: HashMessageToString_body_def Let_def intro!: strict_seq strict_deferring
      split: option.splits)

lemma strict_HashMessage_body: "strict (HashMessage_body v G msg)"
  by (auto simp: HashMessage_body_def Let_def intro!: strict_seq strict_deferring
      split: option.splits)

lemma strict_Sign_body: "strict (Sign_body v G key msg)"
  by (auto simp: Sign_body_def Let_def intro!: strict_seq strict_deferring
      split: option.splits variant.splits prod.splits)

lemma strict_NewPrivateKey_body: "strict (NewPrivateKey_body v G)"
  by (auto simp: NewPrivateKey_body_def Let_def intro!: strict_seq strict_deferring
      split: option.splits variant.splits prod.splits)

lemma guarded_recovers:
  assumes q: "strict body" and g: "guarded zero body s = (e, s1, t)"
  shows "\<exists>r err. e = Return (r, err) \<and>
           (\<forall>p. last_panic t = Some p \<longrightarrow> r = zero \<and> err = Some (recovered p))"
  using g
proof (cases rule: guarded_cases)
  case 1
  then show ?thesis by simp
next
  case (2 m e0 m1)
  from strictD[OF q 2(3)] have "exact e0 t" .
  with 2(4) show ?thesis by (cases e0) auto
qed

section \<open>Regions are released\<close>







lemma ends_ret [simp]: "ends b l l (ret a)"
  by (simp add: ends_def ret_def)

lemma ends_panic [simp]: "ends b l l (panic p)"
  by (simp add: ends_def panic_def)



























section \<open>Exits and traces\<close>

lemma postD: "post c Q \<Longrightarrow> c m = (e, m1, t) \<Longrightarrow> Q e t"
  by (auto simp: post_def dest!: spec[of _ m])

lemma post_mono: "post c P \<Longrightarrow> (\<And>e t. P e t \<Longrightarrow> P' e t) \<Longrightarrow> post c P'"
  by (simp add: post_def)

lemma post_ret: "Q (Return a) [] \<Longrightarrow> post (ret a) Q"
  by (simp add: post_def ret_def)

lemma post_seq_gen:
  assumes "\<And>m e m1 t. f m = (e, m1, t) \<Longrightarrow>
     (case e of Return a \<Rightarrow> post (k a) (\<lambda>e' t'. Q e' (t @ t')) | Panic p \<Rightarrow> Q (Panic p) t)"
  shows "post (seq f k) Q"
  unfolding post_def
proof
  fix m
  obtain e m1 t1 where fm: "f m = (e, m1, t1)" by (cases "f m") auto
  note c = assms[OF fm]
  show "Q (fst (seq f k m)) (snd (snd (seq f k m)))"
  proof (cases e)
    case (Return a)
    obtain e2 m2 t2 where km: "k a m1 = (e2, m2, t2)" by (cases "k a m1") auto
    from c Return have "post (k a) (\<lambda>e' t'. Q e' (t1 @ t'))" by simp
    from postD[OF this km] fm Return km show ?thesis by (simp add: seq_def)
  next
    case (Panic p)
    with c fm show ?thesis by (simp add: seq_def)
  qed
qed

lemma post_seq_Call:
  assumes "\<And>rs. post (k (rs, None)) (\<lambda>e t. Q e (Invoke f args (Ret rs) # t))"
    and "\<And>x. post (k ([], Some x)) (\<lambda>e t. Q e (Invoke f args (Err x) # t))"
    and "\<And>p. Q (Panic p) [Invoke f args (Pan p)]"
  shows "post (seq (Call G f args) k) Q"
  apply (rule post_seq_gen)
  using assms by (auto simp: Call_def split: reply.splits)

lemma post_seq_allocateSafe:
  assumes "\<And>p rest. post (k (p, n, None)) (\<lambda>e t. Q e (Invoke AllocFn [n] (Ret (p # rest)) # t))"
    and "\<And>x. post (k (0, 0, Some x)) (\<lambda>e t. Q e (Invoke AllocFn [n] (Err x) # t))"
    and "\<And>p. Q (Panic p) [Invoke AllocFn [n] (Pan p)]"
    and "Q (Panic index_out_of_range) [Invoke AllocFn [n] (Ret []), Raised index_out_of_range]"
  shows "post (seq (allocateSafe G n) k) Q"
  apply (rule post_seq_gen)
  using assms
  by (auto simp: allocateSafe_def seq_def Call_def first_def ret_def panic_def
      split: reply.splits list.splits)

lemma post_seq_Memory_Read:
  assumes "\<And>buf. length buf = unat n \<Longrightarrow> post (k (buf, True)) (\<lambda>e t. Q e (Read p n True # t))"
    and "post (k ([], False)) (\<lambda>e t. Q e (Read p n False # t))"
  shows "post (seq (Memory_Read p n) k) Q"
  apply (rule post_seq_gen)
  using assms by (auto simp: Memory_Read_def in_range_def view_def split: if_splits)

lemma post_seq_Memory_Write:
  assumes "\<And>ok. post (k ok) (\<lambda>e t. Q e (Write p bs ok # t))"
  shows "post (seq (Memory_Write p bs) k) Q"
  apply (rule post_seq_gen)
  using assms by (auto simp: Memory_Write_def split: if_splits)

lemma post_seq_logging:
  assumes "post (k ()) (\<lambda>e t. Q e (Logged s as # t))"
  shows "post (seq (logging s as) k) Q"
  apply (rule post_seq_gen)
  using assms by (auto simp: logging_def)

lemma post_seq_current:
  assumes "\<And>a. post (k a) Q"
  shows "post (seq (current p n) k) Q"
  apply (rule post_seq_gen)
  using assms by (auto simp: current_def)

lemma post_seq_first:
  assumes "\<And>x rest. xs = x # rest \<Longrightarrow> post (k x) Q"
    and "xs = [] \<Longrightarrow> Q (Panic index_out_of_range) [Raised index_out_of_range]"
  shows "post (seq (first xs) k) Q"
  apply (rule post_seq_gen)
  using assms by (auto simp: first_def ret_def panic_def split: list.splits)

lemma post_deferring_gen:
  assumes "post body (\<lambda>e t. post d (\<lambda>e' t'.
             Q (case e' of Return u \<Rightarrow> e | Panic p \<Rightarrow> Panic p) (t @ t')))"
  shows "post (deferring d body) Q"
  unfolding post_def
proof
  fix m
  obtain e m1 t1 where bm: "body m = (e, m1, t1)" by (cases "body m") auto
  obtain e2 m2 t2 where dm: "d m1 = (e2, m2, t2)" by (cases "d m1") auto
  from postD[OF postD[OF assms bm] dm] bm dm
  show "Q (fst (deferring d body m)) (snd (snd (deferring d body m)))"
    by (cases e2) (simp_all add: deferring_def)
qed

lemma post_release:
  assumes "\<And>r. Q (after r (Return ())) (Invoke DeallocFn [q, 0] r # complaint msg r)"
  shows "post (release G q msg) Q"
  unfolding post_def
proof
  fix m
  show "Q (fst (release G q msg m)) (snd (snd (release G q msg m)))"
  proof (cases "G DeallocFn [q, 0] m")
    case (Returned rs m1)
    with assms[of "Ret rs"] show ?thesis
      by (simp add: release_def deallocateSafe_def seq_def Call_def ret_def)
  next
    case (Failed x m1)
    with assms[of "Err x"] show ?thesis
      by (simp add: release_def deallocateSafe_def seq_def Call_def ret_def logging_def)
  next
    case (Panicked p m1)
    with assms[of "Pan p"] show ?thesis
      by (simp add: release_def deallocateSafe_def seq_def Call_def)
  qed
qed

lemma post_release_call:
  assumes "\<And>r. Q (after r (Return ())) [Invoke DeallocFn [q, n] r]"
  shows "post (release_call G q n) Q"
  unfolding post_def
proof
  fix m
  show "Q (fst (release_call G q n m)) (snd (snd (release_call G q n m)))"
  proof (cases "G DeallocFn [q, n] m")
    case (Returned rs m1)
    with assms[of "Ret rs"] show ?thesis
      by (simp add: release_call_def seq_def Call_def ret_def)
  next
    case (Failed x m1)
    with assms[of "Err x"] show ?thesis
      by (simp add: release_call_def seq_def Call_def ret_def)
  next
    case (Panicked p m1)
    with assms[of "Pan p"] show ?thesis
      by (simp add: release_call_def seq_def Call_def)
  qed
qed

lemma after_case [simp]:
  "(case after r (Return ()) of Return u \<Rightarrow> e | Panic p \<Rightarrow> Panic p) = after r e"
  by (cases r) simp_all

lemma after_eq_Return [simp]:
  "after r e = Return x \<longleftrightarrow> (\<forall>p. r \<noteq> Pan p) \<and> e = Return x"
  by (cases r) auto

lemma refused_after [simp]: "refused zero (after r e) \<longleftrightarrow> (\<exists>p. r = Pan p) \<or> refused zero e"
  by (cases r) auto

lemma Invoke_complaint [simp]: "Invoke f args r \<notin> set (complaint msg r')"
  by (cases r') auto

lemma Logged_complaint [simp]:
  "Logged s as \<in> set (complaint msg r) \<longleftrightarrow> (\<exists>x. r = Err x \<and> s = msg \<and> as = [ArgErr x])"
  by (cases r) auto

lemma post_deferring_release:
  assumes "post body (\<lambda>e t. \<forall>r. Q (after r e) (t @ Invoke DeallocFn [q, 0] r # complaint msg r))"
  shows "post (deferring (release G q msg) body) Q"
  apply (rule post_deferring_gen)
  apply (rule post_mono[OF assms])
  apply (rule post_release)
  apply simp
  done

lemma post_deferring_release_call:
  assumes "post body (\<lambda>e t. \<forall>r. Q (after r e) (t @ [Invoke DeallocFn [q, n] r]))"
  shows "post (deferring (release_call G q n) body) Q"
  apply (rule post_deferring_gen)
  apply (rule post_mono[OF assms])
  apply (rule post_release_call)
  apply simp
  done

lemma post_wipe_and_release:
  assumes "\<And>ok r. Q (after r (Return ()))
     (Write p (replicate (unat n) 0) ok # Invoke DeallocFn [ucast p, 0] r #
        complaint ''Failed to deallocate private key memory: %v'' r)"
  shows "post (wipe_and_release G p n) Q"
  unfolding wipe_and_release_def
  apply (rule post_seq_Memory_Write)
  apply (rule post_release)
  using assms apply simp
  done

lemma post_deferring_wipe:
  assumes "post body (\<lambda>e t. \<forall>ok r. Q (after r e)
     (t @ Write p (replicate (unat n) 0) ok # Invoke DeallocFn [ucast p, 0] r #
        complaint ''Failed to deallocate private key memory: %v'' r))"
  shows "post (deferring (wipe_and_release G p n) body) Q"
  apply (rule post_deferring_gen)
  apply (rule post_mono[OF assms])
  apply (rule post_wipe_and_release)
  apply simp
  done

lemmas post_rules = post_ret post_seq_Call post_seq_allocateSafe post_seq_Memory_Read
  post_seq_Memory_Write post_seq_logging post_seq_current post_seq_first
  post_deferring_release post_deferring_release_call post_deferring_wipe

section \<open>Facts about the byte-key and string-key operations\<close>

lemma Sign_ByteKey_refuses:
  "post (Sign_body ByteKey G key msg) (\<lambda>e t.
      (\<exists>args w ws. Invoke SignFn args (Ret (w # ws)) \<in> set t \<and> snd (decodeLenPtr w) = 0) \<longrightarrow>
         refused [] e)"
  by (auto simp: Sign_body_def Let_def intro!: post_rules split: option.splits prod.splits)

lemma NewPrivateKey_ByteKey_refuses:
  "post (NewPrivateKey_body ByteKey G) (\<lambda>e t.
      (\<exists>f args w ws. (f = NewPrivateKeyFn \<or> f = GetAddressFn) \<and>
           Invoke f args (Ret (w # ws)) \<in> set t \<and> snd (decodeLenPtr w) = 0) \<longrightarrow>
         refused ([], []) e)"
  by (auto simp: NewPrivateKey_body_def Let_def intro!: post_rules split: option.splits prod.splits)

lemma NewPrivateKey_ByteKey_lengths:
  "post (NewPrivateKey_body ByteKey G) (\<lambda>e t. \<forall>key addr. e = Return ((key, addr), None) \<longrightarrow>
      (\<exists>kw kws aw aws args.
      Invoke NewPrivateKeyFn [] (Ret (kw # kws)) \<in> set t \<and>
      Invoke GetAddressFn args (Ret (aw # aws)) \<in> set t \<and>
      length key = unat (snd (decodeLenPtr kw)) \<and>
      length addr = unat (snd (decodeLenPtr aw))))"
  by (auto simp: NewPrivateKey_body_def Let_def intro!: post_rules split: option.splits prod.splits)

lemma NewPrivateKey_ByteKey_length_logged:
  "post (NewPrivateKey_body ByteKey G) (\<lambda>e t. \<forall>key addr. e = Return ((key, addr), None) \<longrightarrow>
      (\<forall>f args w ws. Invoke f args (Ret (w # ws)) \<in> set t \<longrightarrow>
         (f = NewPrivateKeyFn \<and> snd (decodeLenPtr w) \<noteq> 59 \<longrightarrow>
           Logged ''unexpected private key length %d (expected %d)''
             [ArgInt (uint (snd (decodeLenPtr w))), ArgInt 59] \<in> set t) \<and>
         (f = GetAddressFn \<and> snd (decodeLenPtr w) \<noteq> 63 \<longrightarrow>
           Logged ''unexpected address length %d (expected %d)''
             [ArgInt (uint (snd (decodeLenPtr w))), ArgInt 63] \<in> set t)))"
  by (auto simp: NewPrivateKey_body_def Let_def PRIVATE_KEY_SIZE_def ADDRESS_SIZE_def
       intro!: post_rules split: option.splits prod.splits)

lemma NewPrivateKey_StringKey_lengths:
  "post (NewPrivateKey_body StringKey G) (\<lambda>e t. \<forall>key addr. e = Return ((key, addr), None) \<longrightarrow>
      length key = 59 \<and> length addr = 63)"
  by (auto simp: NewPrivateKey_body_def Let_def PRIVATE_KEY_SIZE_def ADDRESS_SIZE_def intro!: post_rules split: option.splits prod.splits)

lemma NewPrivateKey_ByteKey_logs:
  "post (NewPrivateKey_body ByteKey G) (\<lambda>e t.
     \<forall>s as. Logged s as \<in> set t \<longrightarrow> s \<in> set NewPrivateKey_log_lines)"
  by (auto simp: NewPrivateKey_body_def Let_def NewPrivateKey_log_lines_def intro!: post_rules split: option.splits prod.splits)

lemma Sign_ByteKey_logs:
  "post (Sign_body ByteKey G key msg) (\<lambda>e t.
     \<forall>s as. Logged s as \<in> set t \<longrightarrow> s \<in> set Sign_log_lines)"
  by (auto simp: Sign_body_def Let_def Sign_log_lines_def intro!: post_rules split: option.splits prod.splits)

lemma list_ex_complaint [simp]: "\<not> list_ex (\<lambda>d. dealloc_ptr d = Some q) (complaint msg r)"
  by (cases r) auto

lemma Sign_ByteKey_wipes:
  "post (Sign_body ByteKey G key msg) (\<lambda>e t.
     \<forall>sig. e = Return (sig, None) \<longrightarrow> wiped_after_sign None t)"
  by (auto simp: Sign_body_def Let_def intro!: post_rules split: option.splits prod.splits)

lemma deferring_split:
  assumes "deferring d b m = (e, m2, t)"
  obtains e1 m1 t1 e2 t2 where "b m = (e1, m1, t1)" and "d m1 = (e2, m2, t2)" and "t = t1 @ t2"
  using assms by (auto simp: deferring_def split: prod.splits exit.splits)

lemma wipe_and_release_trace:
  assumes "wipe_and_release G p n m = (e, m1, t)"
  shows "\<exists>ok r. t = Write p (replicate (unat n) 0) ok # Invoke DeallocFn [ucast p, 0] r #
                    complaint ''Failed to deallocate private key memory: %v'' r"
  by (rule postD[OF post_wipe_and_release assms]) blast

lemma NewPrivateKey_ByteKey_wipes:
  assumes run: "NewPrivateKey_body ByteKey G m = (e, m1, Invoke NewPrivateKeyFn [] (Ret (w # ws)) # t)"
    and w: "decodeLenPtr w = (keyPtr, keyLen)" and "keyPtr \<noteq> 0" and "keyLen \<noteq> 0"
  shows "\<exists>ok r. suffix
          (Write keyPtr (replicate (unat keyLen) 0) ok # Invoke DeallocFn [ucast keyPtr, 0] r #
           complaint ''Failed to deallocate private key memory: %v'' r) t"
proof -
  let ?body = "\<lambda>u. deferring (wipe_and_release G keyPtr keyLen) u"
  from assms obtain u t0 t1 m0 where d: "deferring (wipe_and_release G keyPtr keyLen) u m0 = (e, m1, t1)"
    and t: "t = t0 @ t1"
    by (auto simp: NewPrivateKey_body_def seq_def Call_def logging_def ret_def
        split: reply.splits if_splits prod.splits exit.splits)
  from d obtain t2 t3 e3 m3 where wr: "wipe_and_release G keyPtr keyLen m3 = (e3, m1, t3)"
    and t1: "t1 = t2 @ t3"
    by (auto elim: deferring_split)
  from wipe_and_release_trace[OF wr] obtain ok r where
    t3: "t3 = Write keyPtr (replicate (unat keyLen) 0) ok # Invoke DeallocFn [ucast keyPtr, 0] r #
           complaint ''Failed to deallocate private key memory: %v'' r" by blast
  from t t1 have "t = (t0 @ t2) @ t3" by simp
  then have "suffix t3 t" by (rule suffixI)
  with t3 show ?thesis by blast
qed

section \<open>The examples' module\<close>

lemma sessionA_open: "smod sessionA = Some memoryA" "\<not> is_closed memoryA"
  by (simp_all add: sessionA_def memoryA_def)

lemma triple: "x = (fst x, fst (snd x), snd (snd x))"
  by simp

section \<open>Validation before any guest call\<close>

text \<open>
  Claim C3. On an open session, \<open>FormatMessage(m, c)\<close> with \<open>c < 1\<close> or \<open>c > 32\<close> returns
  the error "target number of chunks must be between 1 and 32", and with \<open>1 \<le> c \<le> 32\<close>
  and \<open>len(m) > c * 512\<close> the error "target formatted message length must be at most ..."
  (the two errors the spec calls InvalidInputError). In both cases the result is nil, the
  trace is empty (no allocation, no memory write, no guest function call) and the session,
  guest memory included, is as before. Both versions of the session.
\<close>

theorem FormatMessage_rejects_without_guest_call:
  assumes "smod s = Some m" and "\<not> is_closed m"
  shows "(c < 1 \<or> c > 32 \<longrightarrow>
           FormatMessage v G msg c s =
             (Return ([], Some (New ''target number of chunks must be between 1 and 32'')), s, []))
       \<and> (1 \<le> c \<and> c \<le> 32 \<and> int (length msg) > c * 512 \<longrightarrow>
           FormatMessage v G msg c s =
             (Return ([], Some (Errorf
                ''target formatted message length must be at most %d (%d chunks)''
                [ArgInt (c * 512), ArgInt c])), s, []))"
  using assms
  by (auto simp: FormatMessage_def guarded_open recovering_def FormatMessage_body_def ret_def
        MAX_FORMAT_MESSAGE_CHUNKS_def MESSAGE_FORMAT_BLOCK_SIZE_def)

theorem FormatMessage_rejects_without_guest_call_witness:
  "FormatMessage ByteKey (scripted tidy) [1, 2] 0 sessionA =
     (Return ([], Some (New ''target number of chunks must be between 1 and 32'')), sessionA, [])
   \<and> FormatMessage StringKey (scripted tidy) [1, 2] 33 sessionA =
     (Return ([], Some (New ''target number of chunks must be between 1 and 32'')), sessionA, [])
   \<and> FormatMessage ByteKey (scripted tidy) (replicate 513 7) 1 sessionA =
     (Return ([], Some (Errorf
        ''target formatted message length must be at most %d (%d chunks)''
        [ArgInt 512, ArgInt 1])), sessionA, [])"
  using FormatMessage_rejects_without_guest_call[OF sessionA_open, of 0 ByteKey "scripted tidy" "[1, 2]"]
    FormatMessage_rejects_without_guest_call[OF sessionA_open, of 33 StringKey "scripted tidy" "[1, 2]"]
    FormatMessage_rejects_without_guest_call[OF sessionA_open, of 1 ByteKey "scripted tidy" "replicate 513 7"]
  by simp

text \<open>
  Claim C4. On an open session, \<open>Sign(k, m)\<close> with \<open>len(k) \<noteq> 59\<close> returns the error
  "invalid private key size" (InvalidInputError in the spec's words) and an empty
  signature; the trace is empty, so \<open>alloc\<close> is never called, and the session is as
  before. Both versions of the session.
\<close>

theorem Sign_rejects_key_size_without_guest_call:
  assumes "smod s = Some m" and "\<not> is_closed m" and "length key \<noteq> 59"
  shows "Sign v G key msg s = (Return ([], Some (New ''invalid private key size'')), s, [])"
  using assms
  by (simp add: Sign_def guarded_open recovering_def Sign_body_def ret_def PRIVATE_KEY_SIZE_def)

theorem Sign_rejects_key_size_without_guest_call_witness:
  "Sign ByteKey (scripted tidy) (replicate 58 1) [3] sessionA =
     (Return ([], Some (New ''invalid private key size'')), sessionA, [])
   \<and> Sign StringKey (scripted tidy) (replicate 60 1) [3] sessionA =
     (Return ([], Some (New ''invalid private key size'')), sessionA, [])"
  using Sign_rejects_key_size_without_guest_call[OF sessionA_open, of "replicate 58 1" ByteKey "scripted tidy" "[3]"]
    Sign_rejects_key_size_without_guest_call[OF sessionA_open, of "replicate 60 1" StringKey "scripted tidy" "[3]"]
  by simp

section \<open>Closed wrappers and closed sessions\<close>

lemma shut_Session_Close [simp]: "shut (Session_Close s)"
  by (simp add: shut_def Session_Close_def split: option.splits)

lemma Session_Close_shut: "shut s \<Longrightarrow> Session_Close s = s"
  by (cases s) (auto simp: shut_def Session_Close_def split: option.splits)

lemma perform_shut:
  "shut s \<Longrightarrow> perform v G req s = (e, s1, t) \<Longrightarrow>
     s1 = s \<and> t = [] \<and> (req = ReqClose \<or> failed_with e ErrNoModule)"
  by (cases req)
     (auto simp: guarded_shut NewPrivateKey_def FormatMessage_def RecoverMessage_def
        HashMessageToString_def HashMessage_def Sign_def Session_Close_shut)

lemma run_shut:
  "shut s \<Longrightarrow> snd (run v G reqs s) = s \<and>
     (\<forall>(req, e, t) \<in> set (fst (run v G reqs s)).
        t = [] \<and> (req = ReqClose \<or> failed_with e ErrNoModule))"
proof (induction reqs)
  case Nil
  then show ?case by simp
next
  case (Cons req reqs)
  obtain e s1 t where p: "perform v G req s = (e, s1, t)"
    by (cases "perform v G req s") auto
  from perform_shut[OF Cons.prems p] have s1: "s1 = s" and t: "t = []"
    and f: "req = ReqClose \<or> failed_with e ErrNoModule" by auto
  from Cons.IH[OF Cons.prems] s1 t f p show ?case
    by (auto split: prod.splits)
qed

lemma NewSession_inactive:
  "\<not> runtimeActive w \<Longrightarrow> NewSession W w = (r, w1) \<Longrightarrow>
     r = (None, Some ErrNoRuntime) \<and> \<not> runtimeActive w1"
  by (auto simp: NewSession_def split: option.splits)

lemma Wrapper_Close_inactive [simp]: "\<not> runtimeActive (Wrapper_Close W w)"
  by (simp add: Wrapper_Close_def split: option.splits)

lemma wrapper_run_inactive:
  "\<not> runtimeActive w \<Longrightarrow> \<not> runtimeActive (snd (wrapper_run W reqs w)) \<and>
     (\<forall>r \<in> set (fst (wrapper_run W reqs w)). r = (None, Some ErrNoRuntime))"
proof (induction reqs arbitrary: w)
  case Nil
  then show ?case by simp
next
  case (Cons req reqs)
  show ?case
  proof (cases req)
    case WNewSession
    obtain r w1 where n: "NewSession W w = (r, w1)" by (cases "NewSession W w") auto
    from NewSession_inactive[OF Cons.prems n]
    have r: "r = (None, Some ErrNoRuntime)" and w1: "\<not> runtimeActive w1" by auto
    from Cons.IH[OF w1] r n WNewSession show ?thesis by (auto split: prod.splits)
  next
    case WClose
    with Cons.IH[of "Wrapper_Close W w"] show ?thesis by simp
  qed
qed

text \<open>
  Claim C6. After \<open>Close\<close> of the wrapper, whatever is called on it afterwards (any list
  \<open>wreqs\<close> of \<open>NewSession\<close> and \<open>Close\<close> calls), every \<open>NewSession\<close> returns no session and
  \<open>ErrNoRuntime\<close> (the spec's RuntimeClosedError), and the wrapper stays inactive. After
  \<open>Close\<close> of a session, whatever is called on it afterwards (any list \<open>reqs\<close> of the
  interface's methods), every operation returns zero results and \<open>ErrNoModule\<close> (the spec's
  SessionClosedError) with an empty trace (no guest call, no read or write of guest
  memory), and the session, guest memory included, stays exactly as \<open>Close\<close> left it.
\<close>

theorem closed_is_terminal:
  "(\<forall>r \<in> set (fst (wrapper_run W wreqs (Wrapper_Close W w))). r = (None, Some ErrNoRuntime))
   \<and> \<not> runtimeActive (snd (wrapper_run W wreqs (Wrapper_Close W w)))
   \<and> (\<forall>(req, e, t) \<in> set (fst (run v G reqs (Session_Close s))).
         t = [] \<and> (req = ReqClose \<or> failed_with e ErrNoModule))
   \<and> snd (run v G reqs (Session_Close s)) = Session_Close s"
  using wrapper_run_inactive[of "Wrapper_Close W w" W wreqs]
    run_shut[of "Session_Close s" v G reqs]
  by simp

theorem closed_is_terminal_witness:
  "fst (wrapper_run wazeroA [WNewSession, WClose, WNewSession] (Wrapper_Close wazeroA wrapperA)) =
     [(None, Some ErrNoRuntime), (None, Some ErrNoRuntime)]
   \<and> fst (run ByteKey (scripted tidy)
            [ReqNewPrivateKey, ReqSign [1] [3], ReqClose, ReqHashMessage [1, 2]]
            (Session_Close sessionA)) =
     [(ReqNewPrivateKey, Return (KeyAddress [] [] (Some ErrNoModule)), []),
      (ReqSign [1] [3], Return (Output [] (Some ErrNoModule)), []),
      (ReqClose, Return Closed, []),
      (ReqHashMessage [1, 2], Return (Output [] (Some ErrNoModule)), [])]
   \<and> snd (run ByteKey (scripted tidy)
            [ReqNewPrivateKey, ReqSign [1] [3], ReqClose, ReqHashMessage [1, 2]]
            (Session_Close sessionA)) = Session_Close sessionA"
proof -
  have shut: "shut (Session_Close sessionA)" by simp
  have run: "fst (run ByteKey (scripted tidy)
            [ReqNewPrivateKey, ReqSign [1] [3], ReqClose, ReqHashMessage [1, 2]]
            (Session_Close sessionA)) =
     [(ReqNewPrivateKey, Return (KeyAddress [] [] (Some ErrNoModule)), []),
      (ReqSign [1] [3], Return (Output [] (Some ErrNoModule)), []),
      (ReqClose, Return Closed, []),
      (ReqHashMessage [1, 2], Return (Output [] (Some ErrNoModule)), [])]"
    by (simp add: guarded_shut[OF shut] Session_Close_shut[OF shut] NewPrivateKey_def Sign_def
          HashMessage_def)
  have wrap: "fst (wrapper_run wazeroA [WNewSession, WClose, WNewSession]
                (Wrapper_Close wazeroA wrapperA)) =
     [(None, Some ErrNoRuntime), (None, Some ErrNoRuntime)]"
    by (simp add: Wrapper_Close_def NewSession_def wrapperA_def)
  from closed_is_terminal[of wazeroA "[WNewSession, WClose, WNewSession]" wrapperA ByteKey
      "scripted tidy"
      "[ReqNewPrivateKey, ReqSign [1] [3], ReqClose, ReqHashMessage [1, 2]]" sessionA]
    run wrap
  show ?thesis by simp
qed

section \<open>Panics become errors\<close>

lemma perform_recovers:
  assumes "perform v G req s = (e, s1, t)"
  shows "(\<exists>resp. e = Return resp) \<and>
         (\<forall>p. last_panic t = Some p \<longrightarrow> failed_with e (recovered p))"
proof (cases req)
  case ReqNewPrivateKey
  with assms obtain e0 where "NewPrivateKey v G s = (e0, s1, t)" and "e = answer_key e0"
    by (auto split: prod.splits)
  with guarded_recovers[OF strict_NewPrivateKey_body, of "([], [])" v G s e0 s1 t] show ?thesis
    by (auto simp: NewPrivateKey_def)
next
  case (ReqFormatMessage msg c)
  with assms obtain e0 where "FormatMessage v G msg c s = (e0, s1, t)" and "e = answer e0"
    by (auto split: prod.splits)
  with guarded_recovers[OF strict_FormatMessage_body, of "[]" v G msg c s e0 s1 t] show ?thesis
    by (auto simp: FormatMessage_def)
next
  case (ReqRecoverMessage msg)
  with assms obtain e0 where "RecoverMessage v G msg s = (e0, s1, t)" and "e = answer e0"
    by (auto split: prod.splits)
  with guarded_recovers[OF strict_RecoverMessage_body, of "[]" v G msg s e0 s1 t] show ?thesis
    by (auto simp: RecoverMessage_def)
next
  case (ReqHashMessageToString msg)
  with assms obtain e0 where "HashMessageToString v G msg s = (e0, s1, t)" and "e = answer e0"
    by (auto split: prod.splits)
  with guarded_recovers[OF strict_HashMessageToString_body, of "[]" v G msg s e0 s1 t]
  show ?thesis
    by (auto simp: HashMessageToString_def)
next
  case (ReqHashMessage msg)
  with assms obtain e0 where "HashMessage v G msg s = (e0, s1, t)" and "e = answer e0"
    by (auto split: prod.splits)
  with guarded_recovers[OF strict_HashMessage_body, of "[]" v G msg s e0 s1 t] show ?thesis
    by (auto simp: HashMessage_def)
next
  case (ReqSign key msg)
  with assms obtain e0 where "Sign v G key msg s = (e0, s1, t)" and "e = answer e0"
    by (auto split: prod.splits)
  with guarded_recovers[OF strict_Sign_body, of "[]" v G key msg s e0 s1 t] show ?thesis
    by (auto simp: Sign_def)
next
  case ReqClose
  with assms show ?thesis by auto
qed

text \<open>
  Claim C7. Every public operation, in both versions, on every session and with every
  guest, returns normally: no panic leaves it. If a panic was raised while it ran (by a
  guest function call, the deferred \<open>dealloc\<close> calls included, or by the Go run time when
  the host indexes an empty result slice), the operation returns its zero results
  together with the error made from the payload of the panic raised last: a string
  payload \<open>x\<close> gives \<open>errors.New(x)\<close>, a payload that is an error is returned as it is,
  any other payload gives \<open>errors.New("unknown panic")\<close>.
\<close>

theorem panics_become_errors:
  assumes "perform v G req s = (e, s1, t)"
  shows "(\<exists>resp. e = Return resp)
       \<and> (\<forall>p. last_panic t = Some p \<longrightarrow> failed_with e (recovered p))
       \<and> recovered (PString x) = New x
       \<and> recovered (PError err) = err
       \<and> recovered POther = New ''unknown panic''"
  using perform_recovers[OF assms] by simp

lemma boom:
  "last_panic (snd (snd (perform ByteKey (scripted (tidy(FormatMessageFn := Pan (PString ''boom''))))
      (ReqFormatMessage [1, 2] 1) sessionA))) = Some (PString ''boom'')"
  "last_panic (snd (snd (perform StringKey (scripted (tidy(HashMessageFn := Ret [])))
      (ReqHashMessageToString [1, 2]) sessionA))) = Some index_out_of_range"
  "last_panic (snd (snd (perform ByteKey (scripted (tidy(DeallocFn := Pan POther)))
      ReqNewPrivateKey sessionA))) = Some POther"
  by code_simp+

theorem panics_become_errors_witness:
  "last_panic (snd (snd (perform ByteKey (scripted (tidy(FormatMessageFn := Pan (PString ''boom''))))
      (ReqFormatMessage [1, 2] 1) sessionA))) = Some (PString ''boom'')
   \<and> failed_with (fst (perform ByteKey (scripted (tidy(FormatMessageFn := Pan (PString ''boom''))))
      (ReqFormatMessage [1, 2] 1) sessionA)) (New ''boom'')
   \<and> last_panic (snd (snd (perform StringKey (scripted (tidy(HashMessageFn := Ret [])))
      (ReqHashMessageToString [1, 2]) sessionA))) = Some index_out_of_range
   \<and> failed_with (fst (perform StringKey (scripted (tidy(HashMessageFn := Ret [])))
      (ReqHashMessageToString [1, 2]) sessionA))
        (RuntimeError ''index out of range [0] with length 0'')
   \<and> last_panic (snd (snd (perform ByteKey (scripted (tidy(DeallocFn := Pan POther)))
      ReqNewPrivateKey sessionA))) = Some POther
   \<and> failed_with (fst (perform ByteKey (scripted (tidy(DeallocFn := Pan POther)))
      ReqNewPrivateKey sessionA)) (New ''unknown panic'')"
  using panics_become_errors[OF triple, of ByteKey
      "scripted (tidy(FormatMessageFn := Pan (PString ''boom'')))" "ReqFormatMessage [1, 2] 1" sessionA]
    panics_become_errors[OF triple, of StringKey
      "scripted (tidy(HashMessageFn := Ret []))" "ReqHashMessageToString [1, 2]" sessionA]
    panics_become_errors[OF triple, of ByteKey
      "scripted (tidy(DeallocFn := Pan POther))" ReqNewPrivateKey sessionA]
    boom
  by (simp add: index_out_of_range_def)

section \<open>Every region taken over is released once\<close>






section \<open>Packed words with a zero length\<close>

text \<open>
  Claim C10. In the byte-key version: when the guest's \<open>new_private_key\<close> or
  \<open>get_address\<close> returns a word whose length field (the high 32 bits) is zero,
  \<open>NewPrivateKey\<close> returns an error with no key and no address; when the guest's \<open>sign\<close>
  returns such a word, \<open>Sign\<close> returns an error and no signature. The pointer field of the
  word may be anything, non-zero included.
\<close>

theorem zero_length_word_refused:
  "(NewPrivateKey ByteKey G s = (e, s1, t) \<and> (f = NewPrivateKeyFn \<or> f = GetAddressFn) \<and>
      Invoke f args (Ret (w # ws)) \<in> set t \<and> snd (decodeLenPtr w) = 0
      \<longrightarrow> (\<exists>err. e = Return (([], []), Some err)))
   \<and> (Sign ByteKey G key msg s' = (e', s1', t') \<and>
      Invoke SignFn args' (Ret (w' # ws')) \<in> set t' \<and> snd (decodeLenPtr w') = 0
      \<longrightarrow> (\<exists>err. e' = Return ([], Some err)))"
proof (intro conjI impI)
  assume a: "NewPrivateKey ByteKey G s = (e, s1, t) \<and> (f = NewPrivateKeyFn \<or> f = GetAddressFn) \<and>
      Invoke f args (Ret (w # ws)) \<in> set t \<and> snd (decodeLenPtr w) = 0"
  then have "guarded ([], []) (NewPrivateKey_body ByteKey G) s = (e, s1, t)"
    by (simp add: NewPrivateKey_def)
  then show "\<exists>err. e = Return (([], []), Some err)"
  proof (cases rule: guarded_cases)
    case 1
    with a show ?thesis by simp
  next
    case (2 m e0 m1)
    from postD[OF NewPrivateKey_ByteKey_refuses 2(3)] a have "refused ([], []) e0" by blast
    with 2(4) show ?thesis by (cases e0) auto
  qed
next
  assume a: "Sign ByteKey G key msg s' = (e', s1', t') \<and>
      Invoke SignFn args' (Ret (w' # ws')) \<in> set t' \<and> snd (decodeLenPtr w') = 0"
  then have "guarded [] (Sign_body ByteKey G key msg) s' = (e', s1', t')"
    by (simp add: Sign_def)
  then show "\<exists>err. e' = Return ([], Some err)"
  proof (cases rule: guarded_cases)
    case 1
    with a show ?thesis by simp
  next
    case (2 m e0 m1)
    from postD[OF Sign_ByteKey_refuses 2(3)] a have "refused [] e0" by blast
    with 2(4) show ?thesis by (cases e0) auto
  qed
qed

lemma zero_length_runs:
  "Invoke NewPrivateKeyFn [] (Ret [0x10]) \<in> set (snd (snd (NewPrivateKey ByteKey
      (scripted (tidy(NewPrivateKeyFn := Ret [0x10]))) sessionA)))"
  "Invoke GetAddressFn [16, 59] (Ret [0x50]) \<in> set (snd (snd (NewPrivateKey ByteKey
      (scripted (tidy(GetAddressFn := Ret [0x50]))) sessionA)))"
  "Invoke SignFn [8, 59, 8, 1] (Ret [0x20]) \<in> set (snd (snd (Sign ByteKey
      (scripted (tidy(SignFn := Ret [0x20]))) (replicate 59 1) [3] sessionA)))"
  "decodeLenPtr 0x10 = (16, 0)" "decodeLenPtr 0x50 = (80, 0)" "decodeLenPtr 0x20 = (32, 0)"
  by code_simp+

theorem zero_length_word_refused_witness:
  "Invoke NewPrivateKeyFn [] (Ret [0x10]) \<in> set (snd (snd (NewPrivateKey ByteKey
      (scripted (tidy(NewPrivateKeyFn := Ret [0x10]))) sessionA)))
   \<and> decodeLenPtr 0x10 = (16, 0)
   \<and> (\<exists>err. fst (NewPrivateKey ByteKey (scripted (tidy(NewPrivateKeyFn := Ret [0x10]))) sessionA) =
         Return (([], []), Some err))
   \<and> Invoke GetAddressFn [16, 59] (Ret [0x50]) \<in> set (snd (snd (NewPrivateKey ByteKey
      (scripted (tidy(GetAddressFn := Ret [0x50]))) sessionA)))
   \<and> decodeLenPtr 0x50 = (80, 0)
   \<and> (\<exists>err. fst (NewPrivateKey ByteKey (scripted (tidy(GetAddressFn := Ret [0x50]))) sessionA) =
         Return (([], []), Some err))
   \<and> Invoke SignFn [8, 59, 8, 1] (Ret [0x20]) \<in> set (snd (snd (Sign ByteKey
      (scripted (tidy(SignFn := Ret [0x20]))) (replicate 59 1) [3] sessionA)))
   \<and> decodeLenPtr 0x20 = (32, 0)
   \<and> (\<exists>err. fst (Sign ByteKey (scripted (tidy(SignFn := Ret [0x20]))) (replicate 59 1) [3] sessionA) =
         Return ([], Some err))"
proof -
  note k = zero_length_word_refused[THEN conjunct1, rule_format, of
      "scripted (tidy(NewPrivateKeyFn := Ret [0x10]))" sessionA _ _ _ NewPrivateKeyFn "[]" "0x10" "[]"]
  note a = zero_length_word_refused[THEN conjunct1, rule_format, of
      "scripted (tidy(GetAddressFn := Ret [0x50]))" sessionA _ _ _ GetAddressFn "[16, 59]" "0x50" "[]"]
  note g = zero_length_word_refused[THEN conjunct2, rule_format, of
      "scripted (tidy(SignFn := Ret [0x20]))" "replicate 59 1" "[3]" sessionA _ _ _
      "[8, 59, 8, 1]" "0x20" "[]"]
  have 1: "\<exists>err. fst (NewPrivateKey ByteKey (scripted (tidy(NewPrivateKeyFn := Ret [0x10]))) sessionA) =
         Return (([], []), Some err)"
    using k[OF conjI[OF triple]] zero_length_runs by simp
  have 2: "\<exists>err. fst (NewPrivateKey ByteKey (scripted (tidy(GetAddressFn := Ret [0x50]))) sessionA) =
         Return (([], []), Some err)"
    using a[OF conjI[OF triple]] zero_length_runs by simp
  have 3: "\<exists>err. fst (Sign ByteKey (scripted (tidy(SignFn := Ret [0x20]))) (replicate 59 1) [3] sessionA) =
         Return ([], Some err)"
    using g[OF conjI[OF triple]] zero_length_runs by simp
  from 1 2 3 zero_length_runs show ?thesis by simp
qed

section \<open>The lengths of a generated key and address\<close>

text \<open>
  Claim C2 says: every successful \<open>NewPrivateKey\<close> returns a key of exactly 59 bytes and
  an address of exactly 63 bytes, whatever lengths the guest reports. The byte-key version
  does not: with a guest that reports a key of 3 bytes at 16 and an address of 2 bytes at
  80 it returns, without error, a 3-byte key and a 2-byte address.
\<close>

theorem NewPrivateKey_short_key:
  "fst (NewPrivateKey ByteKey
          (scripted (tidy(NewPrivateKeyFn := Ret [0x300000010], GetAddressFn := Ret [0x200000050])))
          sessionA) = Return (([1, 1, 1], [2, 2]), None)"
  by code_simp

text \<open>
  Claim C2 as amended. A successful \<open>NewPrivateKey\<close> of the byte-key version returns a key
  and an address whose lengths are the length fields of the words the guest's
  \<open>new_private_key\<close> and \<open>get_address\<close> returned; a key length other than 59 and an
  address length other than 63 are logged ("unexpected private key length", "unexpected
  address length") and nothing more. A successful \<open>NewPrivateKey\<close> of the string-key
  version returns a key of exactly 59 bytes and an address of exactly 63 bytes.
\<close>

theorem NewPrivateKey_lengths:
  "(NewPrivateKey ByteKey G s = (Return ((key, addr), None), s1, t) \<longrightarrow>
      (\<exists>kw kws aw aws args.
         Invoke NewPrivateKeyFn [] (Ret (kw # kws)) \<in> set t \<and>
         Invoke GetAddressFn args (Ret (aw # aws)) \<in> set t \<and>
         length key = unat (snd (decodeLenPtr kw)) \<and>
         length addr = unat (snd (decodeLenPtr aw)) \<and>
         (length key \<noteq> 59 \<longrightarrow>
            Logged ''unexpected private key length %d (expected %d)''
              [ArgInt (int (length key)), ArgInt 59] \<in> set t) \<and>
         (length addr \<noteq> 63 \<longrightarrow>
            Logged ''unexpected address length %d (expected %d)''
              [ArgInt (int (length addr)), ArgInt 63] \<in> set t)))
   \<and> (NewPrivateKey StringKey G s' = (Return ((key', addr'), None), s1', t') \<longrightarrow>
        length key' = 59 \<and> length addr' = 63)"
proof (rule conjI; rule impI)
  assume "NewPrivateKey ByteKey G s = (Return ((key, addr), None), s1, t)"
  then have "guarded ([], []) (NewPrivateKey_body ByteKey G) s = (Return ((key, addr), None), s1, t)"
    by (simp add: NewPrivateKey_def)
  then obtain m m1 where run: "NewPrivateKey_body ByteKey G m = (Return ((key, addr), None), m1, t)"
    by (cases rule: guarded_cases) (auto split: exit.splits)
  from postD[OF NewPrivateKey_ByteKey_lengths run] obtain kw kws aw aws args where
    k: "Invoke NewPrivateKeyFn [] (Ret (kw # kws)) \<in> set t"
    and a: "Invoke GetAddressFn args (Ret (aw # aws)) \<in> set t"
    and lk: "length key = unat (snd (decodeLenPtr kw))"
    and la: "length addr = unat (snd (decodeLenPtr aw))"
    by blast
  note logged = postD[OF NewPrivateKey_ByteKey_length_logged run, rule_format, OF refl]
  have "length key \<noteq> 59 \<longrightarrow>
            Logged ''unexpected private key length %d (expected %d)''
              [ArgInt (int (length key)), ArgInt 59] \<in> set t"
  proof
    assume ne: "length key \<noteq> 59"
    have "snd (decodeLenPtr kw) \<noteq> 59"
    proof
      assume "snd (decodeLenPtr kw) = 59"
      then have "length key = 59" by (simp add: lk)
      with ne show False ..
    qed
    then have "Logged ''unexpected private key length %d (expected %d)''
        [ArgInt (uint (snd (decodeLenPtr kw))), ArgInt 59] \<in> set t"
      using logged[OF k, THEN conjunct1] by blast
    moreover have "uint (snd (decodeLenPtr kw)) = int (length key)"
      by (simp only: lk uint_nat)
    ultimately show "Logged ''unexpected private key length %d (expected %d)''
        [ArgInt (int (length key)), ArgInt 59] \<in> set t"
      by (simp only:)
  qed
  moreover have "length addr \<noteq> 63 \<longrightarrow>
            Logged ''unexpected address length %d (expected %d)''
              [ArgInt (int (length addr)), ArgInt 63] \<in> set t"
  proof
    assume ne: "length addr \<noteq> 63"
    have "snd (decodeLenPtr aw) \<noteq> 63"
    proof
      assume "snd (decodeLenPtr aw) = 63"
      then have "length addr = 63" by (simp add: la)
      with ne show False ..
    qed
    then have "Logged ''unexpected address length %d (expected %d)''
        [ArgInt (uint (snd (decodeLenPtr aw))), ArgInt 63] \<in> set t"
      using logged[OF a, THEN conjunct2] by blast
    moreover have "uint (snd (decodeLenPtr aw)) = int (length addr)"
      by (simp only: la uint_nat)
    ultimately show "Logged ''unexpected address length %d (expected %d)''
        [ArgInt (int (length addr)), ArgInt 63] \<in> set t"
      by (simp only:)
  qed
  ultimately show "\<exists>kw kws aw aws args.
         Invoke NewPrivateKeyFn [] (Ret (kw # kws)) \<in> set t \<and>
         Invoke GetAddressFn args (Ret (aw # aws)) \<in> set t \<and>
         length key = unat (snd (decodeLenPtr kw)) \<and>
         length addr = unat (snd (decodeLenPtr aw)) \<and>
         (length key \<noteq> 59 \<longrightarrow>
            Logged ''unexpected private key length %d (expected %d)''
              [ArgInt (int (length key)), ArgInt 59] \<in> set t) \<and>
         (length addr \<noteq> 63 \<longrightarrow>
            Logged ''unexpected address length %d (expected %d)''
              [ArgInt (int (length addr)), ArgInt 63] \<in> set t)"
    using k a lk la by blast
next
  assume "NewPrivateKey StringKey G s' = (Return ((key', addr'), None), s1', t')"
  then have "guarded ([], []) (NewPrivateKey_body StringKey G) s' =
      (Return ((key', addr'), None), s1', t')"
    by (simp add: NewPrivateKey_def)
  then obtain m m1 where
    run: "NewPrivateKey_body StringKey G m = (Return ((key', addr'), None), m1, t')"
    by (cases rule: guarded_cases) (auto split: exit.splits)
  from postD[OF NewPrivateKey_StringKey_lengths run]
  show "length key' = 59 \<and> length addr' = 63" by simp
qed

lemma generated:
  "NewPrivateKey ByteKey
     (scripted (tidy(NewPrivateKeyFn := Ret [0x300000010], GetAddressFn := Ret [0x200000050])))
     sessionA =
   (Return (([1, 1, 1], [2, 2]), None), sessionA\<lparr>smod := Some (memoryA\<lparr>memory :=
        replicate 16 0 @ replicate 3 0 @ replicate 61 1 @ replicate 176 2\<rparr>)\<rparr>,
    [Invoke NewPrivateKeyFn [] (Ret [0x300000010]),
     Logged ''unexpected private key length %d (expected %d)'' [ArgInt 3, ArgInt 59],
     Read 16 3 True,
     Invoke GetAddressFn [16, 3] (Ret [0x200000050]),
     Logged ''unexpected address length %d (expected %d)'' [ArgInt 2, ArgInt 63],
     Read 80 2 True,
     Invoke DeallocFn [80, 0] (Ret []),
     Write 16 [0, 0, 0] True,
     Invoke DeallocFn [16, 0] (Ret [])])"
  "NewPrivateKey StringKey (scripted tidy) sessionA =
   (Return ((replicate 59 1, replicate 63 2), None), sessionA,
    [Invoke NewPrivateKeyFn [] (Ret [0x3B00000010]), Read 16 59 True,
     Invoke GetAddressFn [0x3B00000010, 59] (Ret [0x3F00000050]), Read 80 63 True,
     Invoke DeallocFn [0x3F00000050, 63] (Ret []),
     Invoke DeallocFn [0x3B00000010, 59] (Ret [])])"
  by code_simp+

theorem NewPrivateKey_lengths_witness:
  "(\<exists>kw kws aw aws args.
      Invoke NewPrivateKeyFn [] (Ret (kw # kws)) \<in> set
        [Invoke NewPrivateKeyFn [] (Ret [0x300000010]),
         Logged ''unexpected private key length %d (expected %d)'' [ArgInt 3, ArgInt 59],
         Read 16 3 True,
         Invoke GetAddressFn [16, 3] (Ret [0x200000050]),
         Logged ''unexpected address length %d (expected %d)'' [ArgInt 2, ArgInt 63],
         Read 80 2 True,
         Invoke DeallocFn [80, 0] (Ret []),
         Write 16 [0, 0, 0] True,
         Invoke DeallocFn [16, 0] (Ret [])] \<and>
      length [1, 1, 1 :: byte] = unat (snd (decodeLenPtr kw)) \<and>
      length [2, 2 :: byte] = unat (snd (decodeLenPtr aw)))
   \<and> length (replicate 59 (1 :: byte)) = 59 \<and> length (replicate 63 (2 :: byte)) = 63"
  using NewPrivateKey_lengths[THEN conjunct1, rule_format, OF generated(1)]
    NewPrivateKey_lengths[THEN conjunct2, rule_format, OF generated(2)]
  by blast

section \<open>Key bytes in guest memory and the release of their region\<close>

text \<open>
  What the byte-key version does. \<open>NewPrivateKey\<close> wipes inside the deferred closure that
  releases the key region: whenever the guest's \<open>new_private_key\<close> returns a word whose
  pointer and length fields are both non-zero, the trace ends with a write of that many
  zero bytes at that pointer and then the \<open>dealloc\<close> call for that pointer, however the
  operation ends. \<open>Sign\<close> wipes in its body, after it has read the signature: when it
  succeeds, 59 zero bytes are written at the key region after the guest's \<open>sign\<close> was
  called and before any \<open>dealloc\<close> call.
\<close>

lemma NewPrivateKey_wipes_on_every_exit:
  assumes a: "NewPrivateKey ByteKey G s = (e, s1, Invoke NewPrivateKeyFn [] (Ret (w # ws)) # t) \<and>
      fst (decodeLenPtr w) \<noteq> 0 \<and> snd (decodeLenPtr w) \<noteq> 0"
  shows "\<exists>ok r. suffix
         (Write (fst (decodeLenPtr w)) (replicate (unat (snd (decodeLenPtr w))) 0) ok #
          Invoke DeallocFn [ucast (fst (decodeLenPtr w)), 0] r #
          complaint ''Failed to deallocate private key memory: %v'' r) t"
proof -
  from a have "guarded ([], []) (NewPrivateKey_body ByteKey G) s =
      (e, s1, Invoke NewPrivateKeyFn [] (Ret (w # ws)) # t)"
    by (simp add: NewPrivateKey_def)
  then obtain m e0 m1 where
    run: "NewPrivateKey_body ByteKey G m = (e0, m1, Invoke NewPrivateKeyFn [] (Ret (w # ws)) # t)"
    by (cases rule: guarded_cases) auto
  have "decodeLenPtr w = (fst (decodeLenPtr w), snd (decodeLenPtr w))" by simp
  from NewPrivateKey_ByteKey_wipes[OF run this] a
  show ?thesis by blast
qed

lemma Sign_wipes_on_success:
  assumes "Sign ByteKey G key msg s2 = (Return (sig, None), s3, t2)"
  shows "wiped_after_sign None t2"
proof -
  from assms have "guarded [] (Sign_body ByteKey G key msg) s2 = (Return (sig, None), s3, t2)"
    by (simp add: Sign_def)
  then show ?thesis
  proof (cases rule: guarded_cases)
    case 1
    then show ?thesis by simp
  next
    case (2 m e0 m1)
    from 2(4) have "e0 = Return (sig, None)" by (cases e0) auto
    with postD[OF Sign_ByteKey_wipes 2(3)] show ?thesis by simp
  qed
qed

text \<open>
  Claim C9 says: in the byte-key \<open>NewPrivateKey\<close> and \<open>Sign\<close> the region of guest memory
  that holds the key is overwritten with zero bytes after the guest has produced or used
  the key and before the region is released, on every path on which it is released.
  \<open>Sign\<close> does not do so on its failure exits: its zeroing write stands after the read of
  the signature, and every return between the write of the key and that point leaves the
  deferred \<open>dealloc\<close> to release the region with the key in it. Here \<open>Sign\<close> is given a
  key of 59 bytes 7 and the message \<open>[3]\<close>, and \<open>alloc\<close> places the key at 8. When the
  guest's \<open>sign\<close> returns the word 0, \<open>Sign\<close> fails, no zero byte is written, the key
  region is released and the memory still holds the 59 key bytes at 8; the trace is the
  same but for the ending of \<open>sign\<close> when \<open>sign\<close> returns an error, no word at all, or
  a signature that cannot be read, and when it panics. The interface says of \<open>Sign\<close> that
  the key "is wiped from WASM memory immediately after use", and \<open>NewPrivateKey\<close> on a
  failure exit of its own (\<open>get_address\<close> returns the word 0) does write 59 zero bytes
  over the key at 16 before it releases the region.
\<close>

theorem Sign_failure_releases_key_unwiped:
  "Sign ByteKey (scripted (tidy(SignFn := Ret [0]))) (replicate 59 7) [3] sessionA =
     (Return ([], Some (New ''internal error when signing message'')),
      sessionA\<lparr>smod := Some (memoryA\<lparr>memory :=
        replicate 8 0 @ replicate 59 7 @ replicate 13 1 @ replicate 176 2\<rparr>)\<rparr>,
      [Invoke AllocFn [1] (Ret [8]), Write 8 [3] True, Invoke AllocFn [59] (Ret [8]),
       Write 8 (replicate 59 7) True, Invoke SignFn [8, 59, 8, 1] (Ret [0]),
       Invoke DeallocFn [8, 0] (Ret []), Invoke DeallocFn [8, 0] (Ret [])])
   \<and> snd (snd (Sign ByteKey (scripted (tidy(SignFn := Err (External ''trap''))))
            (replicate 59 7) [3] sessionA)) =
      [Invoke AllocFn [1] (Ret [8]), Write 8 [3] True, Invoke AllocFn [59] (Ret [8]),
       Write 8 (replicate 59 7) True, Invoke SignFn [8, 59, 8, 1] (Err (External ''trap'')),
       Logged ''sign error:'' [ArgErr (External ''trap'')],
       Invoke DeallocFn [8, 0] (Ret []), Invoke DeallocFn [8, 0] (Ret [])]
   \<and> snd (snd (Sign ByteKey (scripted (tidy(SignFn := Ret []))) (replicate 59 7) [3] sessionA)) =
      [Invoke AllocFn [1] (Ret [8]), Write 8 [3] True, Invoke AllocFn [59] (Ret [8]),
       Write 8 (replicate 59 7) True, Invoke SignFn [8, 59, 8, 1] (Ret []),
       Invoke DeallocFn [8, 0] (Ret []), Invoke DeallocFn [8, 0] (Ret [])]
   \<and> snd (snd (Sign ByteKey (scripted (tidy(SignFn := Pan POther))) (replicate 59 7) [3]
            sessionA)) =
      [Invoke AllocFn [1] (Ret [8]), Write 8 [3] True, Invoke AllocFn [59] (Ret [8]),
       Write 8 (replicate 59 7) True, Invoke SignFn [8, 59, 8, 1] (Pan POther),
       Invoke DeallocFn [8, 0] (Ret []), Invoke DeallocFn [8, 0] (Ret [])]
   \<and> snd (snd (Sign ByteKey (scripted (tidy(SignFn := Ret [0xD8000000F0]))) (replicate 59 7) [3]
            sessionA)) =
      [Invoke AllocFn [1] (Ret [8]), Write 8 [3] True, Invoke AllocFn [59] (Ret [8]),
       Write 8 (replicate 59 7) True, Invoke SignFn [8, 59, 8, 1] (Ret [0xD8000000F0]),
       Read 240 216 False,
       Invoke DeallocFn [8, 0] (Ret []), Invoke DeallocFn [8, 0] (Ret [])]
   \<and> NewPrivateKey ByteKey (scripted (tidy(GetAddressFn := Ret [0]))) sessionA =
     (Return (([], []),
        Some (New ''internal error when getting address from the generated private key'')),
      sessionA\<lparr>smod := Some (memoryA\<lparr>memory :=
        replicate 16 0 @ replicate 59 0 @ replicate 5 1 @ replicate 176 2\<rparr>)\<rparr>,
      [Invoke NewPrivateKeyFn [] (Ret [0x3B00000010]), Read 16 59 True,
       Invoke GetAddressFn [16, 59] (Ret [0]),
       Write 16 (replicate 59 0) True, Invoke DeallocFn [16, 0] (Ret [])])"
  by code_simp

section \<open>A result word whose pointer field is zero\<close>

text \<open>
  Claim C1 says: a result word of the guest whose pointer field (the low 32 bits) is zero
  makes the operation fail, whatever its length field (the high 32 bits) holds, in
  \<open>FormatMessage\<close>, \<open>RecoverMessage\<close>, \<open>HashMessage\<close>, \<open>HashMessageToString\<close>,
  \<open>NewPrivateKey\<close> and \<open>Sign\<close>. The byte-key \<open>NewPrivateKey\<close> and \<open>Sign\<close> test the
  pointer field, and fail. The four message operations, in both versions, compare the
  whole word with zero: on the word \<open>0x300000000\<close>, pointer 0 and length 3, they read
  three bytes at address 0, return them with no error and call \<open>dealloc\<close> on address 0.
\<close>

theorem null_pointer_word_read_as_buffer:
  "decodeLenPtr 0x300000000 = (0, 3)
   \<and> FormatMessage ByteKey (scripted (tidy(FormatMessageFn := Ret [0x300000000]))) [1, 2] 1 sessionA =
       (Return ([0, 0, 0], None),
        sessionA\<lparr>smod := Some (memoryA\<lparr>memory :=
          replicate 8 0 @ [1, 2] @ replicate 6 0 @ replicate 64 1 @ replicate 176 2\<rparr>)\<rparr>,
        [Invoke AllocFn [2] (Ret [8]), Write 8 [1, 2] True,
         Invoke FormatMessageFn [8, 2, 1] (Ret [0x300000000]), Read 0 3 True,
         Invoke DeallocFn [0, 3] (Ret []), Invoke DeallocFn [8, 0] (Ret [])])
   \<and> fst (FormatMessage StringKey (scripted (tidy(FormatMessageFn := Ret [0x300000000]))) [1, 2] 1
          sessionA) = Return ([0, 0, 0], None)
   \<and> fst (RecoverMessage ByteKey (scripted (tidy(RecoverMessageFn := Ret [0x300000000]))) [1, 2]
          sessionA) = Return ([0, 0, 0], None)
   \<and> fst (HashMessage ByteKey (scripted (tidy(HashMessageBytesFn := Ret [0x300000000]))) [1, 2]
          sessionA) = Return ([0, 0, 0], None)
   \<and> fst (HashMessageToString ByteKey (scripted (tidy(HashMessageFn := Ret [0x300000000]))) [1, 2]
          sessionA) = Return ([0, 0, 0], None)
   \<and> fst (NewPrivateKey ByteKey (scripted (tidy(NewPrivateKeyFn := Ret [0x300000000]))) sessionA) =
       Return (([], []), Some (New ''failed to create new private key: invalid pointer''))
   \<and> fst (Sign ByteKey (scripted (tidy(SignFn := Ret [0x300000000]))) (replicate 59 1) [3] sessionA) =
       Return ([], Some (New ''internal error when signing message''))"
  by code_simp

end
